theory Spec2Isabelle
  imports Complex_Main "HOL-Library.Sublist" "HOL-Library.Char_ord" "HOL-Library.List_Lexorder"
begin

section \<open>Data model (src/models/database.py)\<close>

text \<open>
  Python values are modelled as follows. A \<open>str\<close> is a \<open>string\<close> (the model covers
  ASCII text: character classes and \<open>lower\<close> are defined on the ASCII range). A nullable
  column is an \<open>option\<close>. A Python \<open>float\<close> is the \<open>real\<close> number it denotes
  (finite values): the arithmetic of the planner and of the aggregator rounds as double
  precision does (section Floating point), while the scorer and the learner add table
  entries exactly, as floats do on the integer-valued scores the learner writes. A \<open>datetime\<close> is an \<open>int\<close>.
  The results of the database queries are arguments of the functions that issue them.
\<close>

type_synonym datetime = int

text \<open>
  An entry of a recipe's ingredient list: a dict (its string-valued keys) or any other
  value, which the parser reads through \<open>str(ingredient)\<close>; the latter is represented by
  that text. The \<open>ingredients\<close> value itself is a sequence of entries or a \<open>str\<close> holding JSON.
  Values outside these types are not inputs of the model: an \<open>ingredients\<close> that is
  \<open>None\<close> or decodes to something that cannot be iterated (the \<open>for\<close> loop over it
  would raise \<open>TypeError\<close>), a dict entry whose \<open>original\<close> is not a string, scores
  that are \<open>None\<close>, infinite or not a number, and a \<open>max_ingredients_per_week\<close> that is
  \<open>None\<close>.
\<close>

datatype ingredient = Structured "(string \<times> string) list" | RawText string

datatype ingredients_field = Parsed "ingredient list" | Serialized string

record recipe =
  recipe_id :: int
  title :: string
  ingredients :: ingredients_field
  cuisine_type :: "string option"
  dish_type :: "string option"
  difficulty :: "string option"
  ready_in_minutes :: "int option"

record user =
  user_id :: int
  max_ingredients_per_week :: int

text \<open>A row of \<open>user_preferences\<close>; the table has a unique constraint on
  (user_id, preference_type, preference_value). The surrogate primary key is left out.\<close>

record user_preference =
  pref_user_id :: int
  preference_type :: string
  preference_value :: string
  score :: real
  last_updated :: datetime

section \<open>Preference scorer (src/recommender/weekly_planner.py)\<close>

type_synonym pref_table = "(string \<times> string) \<rightharpoonup> real"

text \<open>\<open>d.get(k, default)\<close>.\<close>

definition dict_get :: "('k \<rightharpoonup> 'v) \<Rightarrow> 'k \<Rightarrow> 'v \<Rightarrow> 'v" where
  "dict_get m k d = (case m k of None \<Rightarrow> d | Some v \<Rightarrow> v)"

text \<open>The loop \<open>for pref in user_preferences: pref_lookup[key] = pref.score\<close>.\<close>

definition pref_lookup :: "user_preference list \<Rightarrow> pref_table" where
  "pref_lookup user_preferences =
     fold (\<lambda>pref m. m((preference_type pref, preference_value pref) \<mapsto> score pref))
       user_preferences Map.empty"

text \<open>The \<open>if/elif/else\<close> chain that names the cooking-time bucket (the same chain stands in
  \<open>score_recipe_for_user\<close> and in \<open>update_preferences_from_rating\<close>).\<close>

definition time_bucket :: "int \<Rightarrow> string" where
  "time_bucket minutes =
     (if minutes < 30 then ''quick (<30min)''
      else if minutes \<le> 60 then ''medium (30-60min)''
      else ''long (>60min)'')"

text \<open>Python truthiness of a nullable string (\<open>if recipe.cuisine_type:\<close>) and of a nullable
  integer (\<open>if recipe.ready_in_minutes:\<close>): \<open>None\<close>, \<open>''\<close> and \<open>0\<close> are false.\<close>

definition truthy_str :: "string option \<Rightarrow> bool" where
  "truthy_str v = (case v of None \<Rightarrow> False | Some s \<Rightarrow> s \<noteq> [])"

definition truthy_int :: "int option \<Rightarrow> bool" where
  "truthy_int v = (case v of None \<Rightarrow> False | Some n \<Rightarrow> n \<noteq> 0)"

definition score_recipe_for_user :: "recipe \<Rightarrow> user_preference list \<Rightarrow> real" where
  "score_recipe_for_user r user_preferences =
     (let lookup = pref_lookup user_preferences;
          s0 = 0;
          s1 = (if truthy_str (cuisine_type r)
                then s0 + dict_get lookup (''cuisine_type'', the (cuisine_type r)) 0 else s0);
          s2 = (if truthy_str (dish_type r)
                then s1 + dict_get lookup (''dish_type'', the (dish_type r)) 0 else s1);
          s3 = (if truthy_str (difficulty r)
                then s2 + dict_get lookup (''difficulty'', the (difficulty r)) 0 else s2);
          s4 = (if truthy_int (ready_in_minutes r)
                then s3 + dict_get lookup (''cooking_time'', time_bucket (the (ready_in_minutes r))) 0
                else s3)
      in s4)"

section \<open>Preference learner (src/recommender/preference_updater.py)\<close>

definition calculate_score_delta :: "int \<Rightarrow> real" where
  "calculate_score_delta rating = real_of_int (rating - 3) * 1.0"

text \<open>The filter of the query in \<open>update_user_preference\<close>.\<close>

definition pref_matches :: "int \<Rightarrow> string \<Rightarrow> string \<Rightarrow> user_preference \<Rightarrow> bool" where
  "pref_matches uid ptype pvalue p \<longleftrightarrow>
     pref_user_id p = uid \<and> preference_type p = ptype \<and> preference_value p = pvalue"

text \<open>\<open>query.first()\<close>, then the update of that row in place.\<close>

fun update_first :: "('a \<Rightarrow> bool) \<Rightarrow> ('a \<Rightarrow> 'a) \<Rightarrow> 'a list \<Rightarrow> 'a list" where
  "update_first P f [] = []"
| "update_first P f (x # xs) = (if P x then f x # xs else x # update_first P f xs)"

text \<open>
  \<open>update_user_preference\<close> on the table it commits to: \<open>tbl\<close> is the content of
  \<open>user_preferences\<close> before the call and the result its content after; \<open>now\<close> is the
  reading of \<open>datetime.utcnow()\<close>. A failing database (the \<open>except\<close> branch) is not modelled.
\<close>

definition update_user_preference ::
  "datetime \<Rightarrow> user_preference list \<Rightarrow> int \<Rightarrow> string \<Rightarrow> string option \<Rightarrow> real
     \<Rightarrow> user_preference list" where
  "update_user_preference now tbl uid ptype pvalue score_delta =
     (if \<not> truthy_str pvalue then tbl
      else
        (case find (pref_matches uid ptype (the pvalue)) tbl of
           Some pref \<Rightarrow>
             update_first (pref_matches uid ptype (the pvalue))
               (\<lambda>p. p\<lparr>score := score p + score_delta, last_updated := now\<rparr>) tbl
         | None \<Rightarrow>
             tbl @ [\<lparr>pref_user_id = uid, preference_type = ptype,
                     preference_value = the pvalue, score = score_delta,
                     last_updated = now\<rparr>]))"

text \<open>
  \<open>update_preferences_from_rating\<close>: \<open>found\<close> is the result of the recipe query
  (\<open>None\<close>: no such recipe), \<open>clock k\<close> the time read by the k-th call of
  \<open>update_user_preference\<close>.
\<close>

definition update_preferences_from_rating ::
  "(nat \<Rightarrow> datetime) \<Rightarrow> user_preference list \<Rightarrow> int \<Rightarrow> recipe option \<Rightarrow> int
     \<Rightarrow> user_preference list" where
  "update_preferences_from_rating clock tbl uid found rating =
     (case found of
        None \<Rightarrow> tbl
      | Some r \<Rightarrow>
          (let score_delta = calculate_score_delta rating;
               t1 = (if truthy_str (cuisine_type r)
                     then update_user_preference (clock 0) tbl uid ''cuisine_type''
                            (cuisine_type r) score_delta
                     else tbl);
               t2 = (if truthy_str (dish_type r)
                     then update_user_preference (clock 1) t1 uid ''dish_type''
                            (dish_type r) score_delta
                     else t1);
               t3 = (if truthy_str (difficulty r)
                     then update_user_preference (clock 2) t2 uid ''difficulty''
                            (difficulty r) score_delta
                     else t2);
               t4 = (if truthy_int (ready_in_minutes r)
                     then update_user_preference (clock 3) t3 uid ''cooking_time''
                            (Some (time_bucket (the (ready_in_minutes r)))) score_delta
                     else t3)
           in t4))"

section \<open>The scorer and the learner as the specification words them\<close>

text \<open>The contribution of one categorical attribute: nothing when the value is missing
  (null or empty), the table's entry (default 0) otherwise.\<close>

definition attr_score :: "pref_table \<Rightarrow> string \<Rightarrow> string option \<Rightarrow> real" where
  "attr_score tbl attr_type v =
     (case v of None \<Rightarrow> 0 | Some s \<Rightarrow> if s = [] then 0 else dict_get tbl (attr_type, s) 0)"

text \<open>The bucket boundaries of the specification: below 30 quick, 30 to 60 inclusive
  medium, above 60 long (with the labels the code stores).\<close>

definition bucket_by_spec :: "int \<Rightarrow> string" where
  "bucket_by_spec m =
     (if m < 30 then ''quick (<30min)''
      else if m > 60 then ''long (>60min)''
      else ''medium (30-60min)'')"

text \<open>The score as the specification states it: a present \<open>ready_in_minutes\<close> always
  selects a bucket.\<close>

definition score_as_claimed :: "recipe \<Rightarrow> pref_table \<Rightarrow> real" where
  "score_as_claimed r tbl =
     attr_score tbl ''cuisine_type'' (cuisine_type r)
     + attr_score tbl ''dish_type'' (dish_type r)
     + attr_score tbl ''difficulty'' (difficulty r)
     + (case ready_in_minutes r of
          None \<Rightarrow> 0
        | Some m \<Rightarrow> dict_get tbl (''cooking_time'', bucket_by_spec m) 0)"

text \<open>The same sum with a \<open>ready_in_minutes\<close> of 0 treated like a missing one.\<close>

definition score_amended :: "recipe \<Rightarrow> pref_table \<Rightarrow> real" where
  "score_amended r tbl =
     attr_score tbl ''cuisine_type'' (cuisine_type r)
     + attr_score tbl ''dish_type'' (dish_type r)
     + attr_score tbl ''difficulty'' (difficulty r)
     + (case ready_in_minutes r of
          None \<Rightarrow> 0
        | Some m \<Rightarrow> if m = 0 then 0 else dict_get tbl (''cooking_time'', bucket_by_spec m) 0)"

text \<open>The score the table holds for a key: that of the row the query finds, 0 when there
  is none.\<close>

definition stored_score :: "user_preference list \<Rightarrow> int \<Rightarrow> string \<Rightarrow> string \<Rightarrow> real" where
  "stored_score tbl uid ptype pvalue =
     (case find (pref_matches uid ptype pvalue) tbl of None \<Rightarrow> 0 | Some p \<Rightarrow> score p)"

definition example_recipe :: recipe where
  "example_recipe =
     \<lparr>recipe_id = 1, title = ''Toast'', ingredients = Parsed [], cuisine_type = None,
      dish_type = None, difficulty = None, ready_in_minutes = Some 0\<rparr>"

definition example_prefs :: "user_preference list" where
  "example_prefs =
     [\<lparr>pref_user_id = 1, preference_type = ''cooking_time'',
       preference_value = ''quick (<30min)'', score = 1, last_updated = 0\<rparr>]"

section \<open>Strings and regular expressions (the part of Python's \<open>str\<close> and \<open>re\<close> the parser uses)\<close>

definition is_digit :: "char \<Rightarrow> bool" where
  "is_digit c \<longleftrightarrow> c \<in> set ''0123456789''"

text \<open>Whitespace as \<open>str.strip()\<close> and \<open>\s\<close> see it: space, the controls 9 to 13 and 28 to 31.\<close>

definition is_space :: "char \<Rightarrow> bool" where
  "is_space c \<longleftrightarrow>
     c \<in> set [CHR '' '', CHR 0x09, CHR 0x0A, CHR 0x0B, CHR 0x0C, CHR 0x0D,
                CHR 0x1C, CHR 0x1D, CHR 0x1E, CHR 0x1F]"

text \<open>A word character (\<open>\w\<close>): a letter, a digit or the underscore.\<close>

definition is_word :: "char \<Rightarrow> bool" where
  "is_word c \<longleftrightarrow>
     c \<in> set (''abcdefghijklmnopqrstuvwxyz'' @ ''ABCDEFGHIJKLMNOPQRSTUVWXYZ'' @ ''0123456789_'')"

definition lower_char :: "char \<Rightarrow> char" where
  "lower_char c =
     (case map_of (zip ''ABCDEFGHIJKLMNOPQRSTUVWXYZ'' ''abcdefghijklmnopqrstuvwxyz'') c of
        Some l \<Rightarrow> l | None \<Rightarrow> c)"

definition lower :: "string \<Rightarrow> string" where
  "lower s = map lower_char s"

definition strip :: "string \<Rightarrow> string" where
  "strip s = rev (dropWhile is_space (rev (dropWhile is_space s)))"

definition endswith :: "string \<Rightarrow> string \<Rightarrow> bool" where
  "endswith s suf \<longleftrightarrow> length suf \<le> length s \<and> drop (length s - length suf) s = suf"

text \<open>The slice \<open>s[:-n]\<close> for \<open>n > 0\<close>.\<close>

definition drop_last :: "nat \<Rightarrow> string \<Rightarrow> string" where
  "drop_last n s = take (length s - n) s"

text \<open>
  The regular expressions of the parser, as syntax trees. Repetition (\<open>*\<close>, \<open>+\<close>) stands
  only on a character class in the source's patterns, and is modelled for classes; it is
  greedy. \<open>LitNoCase\<close> is a literal under \<open>re.IGNORECASE\<close>, \<open>WordB\<close> is \<open>\b\<close>, \<open>Eol\<close> is
  \<open>$\<close> (no MULTILINE flag: the end of the string, or just before a newline that ends it).
\<close>

datatype regex =
    Lit string
  | LitNoCase string
  | Cls "char \<Rightarrow> bool"
  | Seq regex regex
  | Alt regex regex
  | Star "char \<Rightarrow> bool"
  | Plus "char \<Rightarrow> bool"
  | Opt regex
  | WordB
  | Eol

text \<open>
  Matching at one position follows the backtracking order of \<open>re\<close>: \<open>rmatch r pw s\<close> lists
  every way \<open>r\<close> can match a prefix of \<open>s\<close>, the one \<open>re\<close> tries first at the head; each is
  the rest of the input after the match, with the flag "the character just before is a
  word character" (\<open>pw\<close> for the position where the match starts), which \<open>\b\<close> reads.
\<close>

fun greedy :: "(char \<Rightarrow> bool) \<Rightarrow> bool \<Rightarrow> string \<Rightarrow> (bool \<times> string) list" where
  "greedy P pw [] = [(pw, [])]"
| "greedy P pw (c # cs) = (if P c then greedy P (is_word c) cs else []) @ [(pw, c # cs)]"

definition at_boundary :: "bool \<Rightarrow> string \<Rightarrow> bool" where
  "at_boundary pw s \<longleftrightarrow> pw \<noteq> (case s of [] \<Rightarrow> False | c # _ \<Rightarrow> is_word c)"

fun rmatch :: "regex \<Rightarrow> bool \<Rightarrow> string \<Rightarrow> (bool \<times> string) list" where
  "rmatch (Lit w) pw s =
     (if prefix w s then [(if w = [] then pw else is_word (last w), drop (length w) s)] else [])"
| "rmatch (LitNoCase w) pw s =
     (if lower (take (length w) s) = lower w \<and> length w \<le> length s
      then [(if w = [] then pw else is_word (last (take (length w) s)), drop (length w) s)]
      else [])"
| "rmatch (Cls P) pw s =
     (case s of [] \<Rightarrow> [] | c # cs \<Rightarrow> if P c then [(is_word c, cs)] else [])"
| "rmatch (Seq a b) pw s = concat (map (\<lambda>(pw', s'). rmatch b pw' s') (rmatch a pw s))"
| "rmatch (Alt a b) pw s = rmatch a pw s @ rmatch b pw s"
| "rmatch (Star P) pw s = greedy P pw s"
| "rmatch (Plus P) pw s =
     (case s of [] \<Rightarrow> [] | c # cs \<Rightarrow> if P c then greedy P (is_word c) cs else [])"
| "rmatch (Opt a) pw s = rmatch a pw s @ [(pw, s)]"
| "rmatch WordB pw s = (if at_boundary pw s then [(pw, s)] else [])"
| "rmatch Eol pw s = (if s = [] \<or> s = [CHR 0x0A] then [(pw, s)] else [])"

text \<open>\<open>(w1|w2|...)\<close>: an alternation of literal words, tried in the order written.\<close>

fun any_of :: "string list \<Rightarrow> regex" where
  "any_of [] = Cls (\<lambda>_. False)"
| "any_of [w] = Lit w"
| "any_of (w # ws) = Alt (Lit w) (any_of ws)"

fun any_of_nocase :: "string list \<Rightarrow> regex" where
  "any_of_nocase [] = Cls (\<lambda>_. False)"
| "any_of_nocase [w] = LitNoCase w"
| "any_of_nocase (w # ws) = Alt (LitNoCase w) (any_of_nocase ws)"

text \<open>
  \<open>re.sub(pattern, repl, text)\<close> with a literal replacement: scan from the left; at each
  position take the first match, replace it and go on after it; where nothing matches,
  copy one character. (None of the source's patterns matches the empty string; an empty
  match would be replaced and the next character copied.)
\<close>

function re_sub_from :: "regex \<Rightarrow> string \<Rightarrow> bool \<Rightarrow> string \<Rightarrow> string" where
  "re_sub_from r repl pw s =
     (case rmatch r pw s of
        m # _ \<Rightarrow>
          if length (snd m) < length s then repl @ re_sub_from r repl (fst m) (snd m)
          else (case s of [] \<Rightarrow> repl | c # cs \<Rightarrow> repl @ c # re_sub_from r repl (is_word c) cs)
      | [] \<Rightarrow> (case s of [] \<Rightarrow> [] | c # cs \<Rightarrow> c # re_sub_from r repl (is_word c) cs))"
  by pat_completeness auto
termination
  by (relation "measure (\<lambda>(r, repl, pw, s). length s)") auto

definition re_sub :: "regex \<Rightarrow> string \<Rightarrow> string \<Rightarrow> string" where
  "re_sub r repl s = re_sub_from r repl False s"

text \<open>\<open>re.search(pattern, text)\<close> read as a truth value: some position has a match.\<close>

fun re_search_from :: "regex \<Rightarrow> bool \<Rightarrow> string \<Rightarrow> bool" where
  "re_search_from r pw [] = (rmatch r pw [] \<noteq> [])"
| "re_search_from r pw (c # cs) = (rmatch r pw (c # cs) \<noteq> [] \<or> re_search_from r (is_word c) cs)"

definition re_search :: "regex \<Rightarrow> string \<Rightarrow> bool" where
  "re_search r s = re_search_from r False s"

text \<open>\<open>re.escape(s)\<close> is the pattern that matches \<open>s\<close> literally.\<close>

definition re_escape :: "string \<Rightarrow> regex" where
  "re_escape s = Lit s"

section \<open>Ingredient normalizer (src/recommender/ingredient_parser.py)\<close>

definition PANTRY_STAPLES :: "string list" where
  "PANTRY_STAPLES =
     [''salt'', ''kosher salt'', ''sea salt'',
      ''ground black pepper'', ''ground white pepper'',
      ''olive oil'', ''vegetable oil'', ''canola oil'', ''cooking oil'', ''oil'',
      ''butter'', ''unsalted butter'', ''salted butter'',
      ''water'', ''ice'', ''ice water'',
      ''sugar'', ''brown sugar'', ''white sugar'', ''granulated sugar'', ''powdered sugar'',
      ''flour'', ''all-purpose flour'', ''bread flour'',
      ''baking powder'', ''baking soda'',
      ''vanilla'', ''vanilla extract'',
      ''garlic powder'', ''onion powder'']"

text \<open>\<open>\b(w1|w2|...)\b\<close>.\<close>

definition whole_words :: "string list \<Rightarrow> regex" where
  "whole_words ws = Seq WordB (Seq (any_of ws) WordB)"

text \<open>\<open>\([^)]*\)\<close>.\<close>

definition parenthesised :: regex where
  "parenthesised = Seq (Lit ''('') (Seq (Star (\<lambda>c. c \<noteq> CHR '')'')) (Lit '')''))"

definition measurements :: "regex list" where
  "measurements =
     [Seq (Plus is_digit)
        (Seq (Opt (Cls (\<lambda>c. is_space c \<or> c = CHR ''-'')))
           (Seq (Star is_digit) (Seq (Opt (Lit ''/'')) (Star is_digit)))),
      whole_words [''cup'', ''cups'', ''tablespoon'', ''tablespoons'', ''teaspoon'', ''teaspoons'',
        ''tbsp'', ''tsp'', ''oz'', ''ounce'', ''ounces'', ''pound'', ''pounds'', ''lb'', ''lbs'',
        ''gram'', ''grams'', ''g'', ''kg'', ''ml'', ''l'', ''litre'', ''liter''],
      whole_words [''can'', ''cans'', ''jar'', ''jars'', ''package'', ''packages'', ''bunch'',
        ''bunches'', ''clove'', ''cloves'', ''head'', ''heads'', ''pinch'', ''dash'', ''handful''],
      whole_words [''to'']]"

definition prep_words :: "regex list" where
  "prep_words =
     [whole_words [''fresh'', ''frozen'', ''dried'', ''canned'', ''jarred'', ''organic'', ''raw'',
        ''cooked''],
      whole_words [''chopped'', ''diced'', ''minced'', ''sliced'', ''grated'', ''shredded'',
        ''crushed'', ''whole'', ''halved'', ''quartered''],
      whole_words [''finely'', ''coarsely'', ''roughly'', ''thinly'', ''thickly''],
      whole_words [''optional'', ''or to taste'', ''to taste'', ''as needed'', ''for serving'',
        ''for garnish''],
      whole_words [''plus more'', ''and'', ''or''],
      Seq (Cls (\<lambda>c. c = CHR '','' \<or> c = CHR '';''))
        (Seq (Star (\<lambda>c. c \<noteq> CHR 0x0A)) Eol)]"

text \<open>The plural rules, first match wins.\<close>

definition singular :: "string \<Rightarrow> string" where
  "singular t =
     (if endswith t ''ies'' then drop_last 3 t @ ''y''
      else if endswith t ''oes'' then drop_last 2 t
      else if endswith t ''ses'' then drop_last 2 t
      else if endswith t ''s'' \<and> length t > 3 then drop_last 1 t
      else t)"

definition normalize_ingredient_name :: "string \<Rightarrow> string" where
  "normalize_ingredient_name ingredient_string =
     (let t = strip (lower ingredient_string);
          t = re_sub parenthesised [] t;
          t = fold (\<lambda>pattern t. re_sub pattern [] t) measurements t;
          t = fold (\<lambda>pattern t. re_sub pattern [] t) prep_words t;
          t = strip (re_sub (Plus is_space) '' '' t);
          t = singular t;
          t = strip (re_sub (whole_words [''a'', ''an'', ''the'']) [] t)
      in t)"

text \<open>The loop over the staples returns at the first staple that matches; the order in
  which a Python set is walked does not change whether one does. \<open>staple in s\<close> on two
  strings is containment as a contiguous substring (\<open>sublist\<close>).\<close>

definition staple_matches :: "string \<Rightarrow> string \<Rightarrow> bool" where
  "staple_matches ingredient_lower staple =
     (if CHR '' '' \<in> set staple
      then sublist staple ingredient_lower
      else re_search (Seq WordB (Seq (re_escape staple) WordB)) ingredient_lower)"

definition is_pantry_staple :: "string \<Rightarrow> bool" where
  "is_pantry_staple ingredient =
     (let ingredient_lower = strip (lower ingredient)
      in if ingredient_lower \<in> set PANTRY_STAPLES then True
         else list_ex (staple_matches ingredient_lower) PANTRY_STAPLES)"

section \<open>Staple detection as the specification words it\<close>

text \<open>A word boundary between the text \<open>pre\<close> and the text \<open>post\<close> that follows it: exactly
  one of the two characters next to the cut is a word character (the ends of the string
  count as non-word).\<close>

definition word_boundary_between :: "string \<Rightarrow> string \<Rightarrow> bool" where
  "word_boundary_between pre post \<longleftrightarrow>
     (pre \<noteq> [] \<and> is_word (last pre)) \<noteq> (post \<noteq> [] \<and> is_word (hd post))"

definition occurs_at_word_boundaries :: "string \<Rightarrow> string \<Rightarrow> bool" where
  "occurs_at_word_boundaries w s \<longleftrightarrow>
     (\<exists>pre post. s = pre @ w @ post
        \<and> word_boundary_between pre (w @ post) \<and> word_boundary_between (pre @ w) post)"

definition staple_by_spec :: "string \<Rightarrow> bool" where
  "staple_by_spec s \<longleftrightarrow>
     s \<in> set PANTRY_STAPLES
     \<or> (\<exists>staple \<in> set PANTRY_STAPLES. CHR '' '' \<in> set staple \<and> sublist staple s)
     \<or> (\<exists>staple \<in> set PANTRY_STAPLES.
           CHR '' '' \<notin> set staple \<and> occurs_at_word_boundaries staple s)"

section \<open>Floating point (Python's \<open>float\<close>: IEEE 754 double precision)\<close>

text \<open>
  A float is modelled by the real number it denotes, and an operation on floats by the
  exact operation followed by \<open>fl\<close>, the rounding to the nearest double (53 significant
  bits, exponent of the last bit at least -1074, a tie going to the even significand), as
  IEEE 754 prescribes for \<open>+\<close>, \<open>-\<close>, \<open>*\<close> and \<open>/\<close>. Results of magnitude \<open>2 ^ 1024\<close> or more
  (\<open>inf\<close>, \<open>OverflowError\<close>), \<open>nan\<close> and the sign of zero are not modelled.
\<close>

definition round_half_even :: "real \<Rightarrow> int" where
  "round_half_even x =
     (let f = \<lfloor>x\<rfloor>; d = x - of_int f
      in if d < 1 / 2 then f else if d > 1 / 2 then f + 1 else if even f then f else f + 1)"

definition pow2 :: "int \<Rightarrow> real" where
  "pow2 e = (if e \<ge> 0 then 2 ^ nat e else 1 / 2 ^ nat (- e))"

text \<open>The position of the leading bit: \<open>nat_log2 n\<close> is the \<open>e\<close> with \<open>2 ^ e \<le> n < 2 ^ (e + 1)\<close>
  for a positive integer, \<open>ilog2 x\<close> the same for a positive real.\<close>

fun nat_log2 :: "nat \<Rightarrow> nat" where
  "nat_log2 n = (if n < 2 then 0 else Suc (nat_log2 (n div 2)))"

definition ilog2 :: "real \<Rightarrow> int" where
  "ilog2 x =
     (if x \<ge> 1 then int (nat_log2 (nat \<lfloor>x\<rfloor>))
      else - (int (nat_log2 (nat (\<lceil>1 / x\<rceil> - 1))) + 1))"

definition fl :: "real \<Rightarrow> real" where
  "fl x =
     (if x = 0 then 0
      else (let e = max (ilog2 \<bar>x\<bar> - 52) (- 1074)
            in of_int (round_half_even (x / pow2 e)) * pow2 e))"

definition float_add :: "real \<Rightarrow> real \<Rightarrow> real" where
  "float_add a b = fl (a + b)"

definition float_sub :: "real \<Rightarrow> real \<Rightarrow> real" where
  "float_sub a b = fl (a - b)"

definition float_mul :: "real \<Rightarrow> real \<Rightarrow> real" where
  "float_mul a b = fl (a * b)"

text \<open>\<open>a / b\<close> on floats with \<open>b\<close> not zero (the callers raise \<open>ZeroDivisionError\<close> at 0).\<close>

definition float_div :: "real \<Rightarrow> real \<Rightarrow> real" where
  "float_div a b = fl (a / b)"

text \<open>The conversion of an \<open>int\<close> operand to \<open>float\<close>, and \<open>a / b\<close> on two \<open>int\<close>s, which
  Python rounds once, from the exact quotient.\<close>

definition float_of_int :: "int \<Rightarrow> real" where
  "float_of_int n = fl (of_int n)"

definition int_truediv :: "int \<Rightarrow> int \<Rightarrow> real" where
  "int_truediv a b = fl (of_int a / of_int b)"

text \<open>
  \<open>sum(xs)\<close> on floats, from the start value 0, adding left to right. (From Python 3.12
  \<open>sum\<close> compensates the rounding errors of a float sum; both agree whenever the partial
  sums are exact, as they are on the integer-valued scores the learner writes.)
\<close>

definition float_sum :: "real list \<Rightarrow> real" where
  "float_sum xs = foldl float_add 0 xs"

text \<open>
  \<open>round(x, ndigits)\<close> on a float: the exact value of \<open>x\<close> rounded to \<open>ndigits\<close> decimals, a
  tie going to the even digit, and the double nearest to that decimal.
\<close>

definition py_round :: "real \<Rightarrow> nat \<Rightarrow> real" where
  "py_round x ndigits = fl (of_int (round_half_even (x * 10 ^ ndigits)) / 10 ^ ndigits)"

section \<open>Ingredient aggregator (src/recommender/ingredient_parser.py)\<close>

text \<open>
  The recipe dicts the parser reads: the keys \<open>title\<close> and \<open>ingredients\<close>, each read with
  \<open>recipe.get(key, default)\<close> and so possibly absent (\<open>None\<close>); the parser reads no other key.
\<close>

record recipe_dict =
  dict_title :: "string option"
  dict_ingredients :: "ingredients_field option"

text \<open>
  \<open>json.loads\<close> is a parameter of the model: \<open>json_loads s\<close> is the sequence of entries the
  text decodes to, or \<open>None\<close> when decoding raises. The bare \<open>except\<close> turns that into \<open>[]\<close>.
\<close>

type_synonym json_decoder = "string \<Rightarrow> ingredient list option"

definition parsed_ingredients :: "json_decoder \<Rightarrow> recipe_dict \<Rightarrow> ingredient list" where
  "parsed_ingredients json_loads recipe =
     (case dict_ingredients recipe of
        None \<Rightarrow> []
      | Some (Parsed entries) \<Rightarrow> entries
      | Some (Serialized s) \<Rightarrow> (case json_loads s of Some entries \<Rightarrow> entries | None \<Rightarrow> []))"

text \<open>\<open>ingredient.get('original', '')\<close> for a dict, \<open>str(ingredient)\<close> otherwise.\<close>

definition original_text :: "ingredient \<Rightarrow> string" where
  "original_text ingredient =
     (case ingredient of
        Structured d \<Rightarrow> dict_get (map_of d) ''original'' []
      | RawText s \<Rightarrow> s)"

text \<open>The body of the inner loop of \<open>extract_unique_ingredients\<close>.\<close>

definition add_ingredient :: "ingredient \<Rightarrow> string set \<Rightarrow> string set" where
  "add_ingredient ingredient unique_ingredients =
     (let normalized = normalize_ingredient_name (original_text ingredient)
      in if normalized \<noteq> [] \<and> \<not> is_pantry_staple normalized
         then insert normalized unique_ingredients
         else unique_ingredients)"

definition extract_unique_ingredients :: "json_decoder \<Rightarrow> recipe_dict list \<Rightarrow> string set" where
  "extract_unique_ingredients json_loads recipes =
     fold (\<lambda>recipe unique_ingredients.
             fold add_ingredient (parsed_ingredients json_loads recipe) unique_ingredients)
       recipes {}"

definition count_ingredients_for_recipes :: "json_decoder \<Rightarrow> recipe_dict list \<Rightarrow> int" where
  "count_ingredients_for_recipes json_loads recipes =
     int (card (extract_unique_ingredients json_loads recipes))"

record savings_info =
  total_ingredients :: int
  ingredients_if_separate :: int
  savings :: int
  overlap_percentage :: real

text \<open>\<open>savings / ingredients_if_separate * 100\<close> divides two \<open>int\<close>s into a float and
  multiplies that by the \<open>int\<close> 100; \<open>round(..., 1)\<close> then acts on the float product (or on
  the \<open>int\<close> 0 of the \<open>else\<close> branch).\<close>

definition calculate_ingredient_savings :: "json_decoder \<Rightarrow> recipe_dict list \<Rightarrow> savings_info" where
  "calculate_ingredient_savings json_loads recipes =
     (let total = count_ingredients_for_recipes json_loads recipes;
          if_separate =
            sum_list (map (\<lambda>recipe. count_ingredients_for_recipes json_loads [recipe]) recipes);
          saved = if_separate - total;
          percentage =
            (if if_separate > 0
             then float_mul (int_truediv saved if_separate) (float_of_int 100)
             else 0)
      in \<lparr>total_ingredients = total, ingredients_if_separate = if_separate,
          savings = saved, overlap_percentage = py_round percentage 1\<rparr>)"

text \<open>
  \<open>extract_quantity_from_ingredient\<close>: \<open>re.match\<close> of
  \<open>^[\d\s\/\-\(\)\.]+(?:cup|cups|...)?\<close> under \<open>re.IGNORECASE\<close>; the result is the matched
  text, stripped, or the empty string.
\<close>

definition quantity_pattern :: regex where
  "quantity_pattern =
     Seq (Plus (\<lambda>c. is_digit c \<or> is_space c \<or> c \<in> set ''/-().''))
       (Opt (any_of_nocase [''cup'', ''cups'', ''tablespoon'', ''tablespoons'', ''teaspoon'',
          ''teaspoons'', ''tbsp'', ''tsp'', ''oz'', ''ounce'', ''ounces'', ''pound'', ''pounds'',
          ''lb'', ''lbs'', ''gram'', ''grams'', ''g'', ''kg'', ''ml'', ''l'', ''litre'', ''liter'',
          ''can'', ''cans'', ''jar'', ''jars'', ''package'', ''packages'', ''packet'', ''packets'',
          ''bunch'', ''bunches'', ''clove'', ''cloves'', ''head'', ''heads'']))"

definition extract_quantity_from_ingredient :: "string \<Rightarrow> string" where
  "extract_quantity_from_ingredient ingredient_string =
     (let t = strip ingredient_string
      in case rmatch quantity_pattern False t of
           m # _ \<Rightarrow> strip (take (length t - length (snd m)) t)
         | [] \<Rightarrow> [])"

record usage =
  usage_recipe :: string
  usage_quantity :: string
  usage_original :: string

text \<open>A dict in insertion order, as a list of keys with their values:
  \<open>if key not in m: m[key] = []\<close>, then \<open>m[key].append(u)\<close>.\<close>

fun append_usage :: "string \<Rightarrow> usage \<Rightarrow> (string \<times> usage list) list \<Rightarrow> (string \<times> usage list) list" where
  "append_usage key u [] = [(key, [u])]"
| "append_usage key u ((k, us) # rest) =
     (if k = key then (k, us @ [u]) # rest else (k, us) # append_usage key u rest)"

definition add_detail ::
  "string \<Rightarrow> ingredient \<Rightarrow> (string \<times> usage list) list \<Rightarrow> (string \<times> usage list) list" where
  "add_detail recipe_title ingredient ingredients_map =
     (let original = original_text ingredient;
          normalized = normalize_ingredient_name original
      in if normalized = [] \<or> is_pantry_staple normalized then ingredients_map
         else
           (let quantity = extract_quantity_from_ingredient original
            in append_usage normalized
                 \<lparr>usage_recipe = recipe_title,
                  usage_quantity = (if quantity \<noteq> [] then quantity else ''as needed''),
                  usage_original = original\<rparr>
                 ingredients_map))"

definition extract_ingredients_with_details ::
  "json_decoder \<Rightarrow> recipe_dict list \<Rightarrow> (string \<times> usage list) list" where
  "extract_ingredients_with_details json_loads recipes =
     fold (\<lambda>recipe ingredients_map.
             fold (add_detail (case dict_title recipe of None \<Rightarrow> ''Unknown Recipe'' | Some t \<Rightarrow> t))
               (parsed_ingredients json_loads recipe) ingredients_map)
       recipes []"

definition get_ingredient_overlap :: "json_decoder \<Rightarrow> recipe_dict \<Rightarrow> recipe_dict \<Rightarrow> string set" where
  "get_ingredient_overlap json_loads recipe1 recipe2 =
     extract_unique_ingredients json_loads [recipe1]
     \<inter> extract_unique_ingredients json_loads [recipe2]"

section \<open>The aggregator as the specification words it\<close>

text \<open>The ingredients one recipe contributes: each line normalized, empties and staples
  dropped.\<close>

definition ingredient_keys :: "json_decoder \<Rightarrow> recipe_dict \<Rightarrow> string set" where
  "ingredient_keys json_loads recipe =
     set (filter (\<lambda>n. n \<noteq> [] \<and> \<not> is_pantry_staple n)
            (map (\<lambda>i. normalize_ingredient_name (original_text i))
               (parsed_ingredients json_loads recipe)))"

definition garlic_recipe :: recipe_dict where
  "garlic_recipe =
     \<lparr>dict_title = Some ''Garlic bread'',
      dict_ingredients = Some (Parsed [Structured [(''original'', ''3 cloves garlic, minced'')],
                                       RawText ''1 tablespoon olive oil''])\<rparr>"

definition bean_recipe :: recipe_dict where
  "bean_recipe =
     \<lparr>dict_title = Some ''Bean stew'',
      dict_ingredients = Some (Parsed [RawText ''1 (15oz) can black beans, drained'',
                                       RawText ''3 cloves garlic, minced''])\<rparr>"

definition broken_recipe :: recipe_dict where
  "broken_recipe = \<lparr>dict_title = Some ''Mystery'', dict_ingredients = Some (Serialized ''[not json'')\<rparr>"

section \<open>Weekly combination search (src/recommender/weekly_planner.py)\<close>

text \<open>
  The exceptions the planner can raise: the two \<open>ValueError\<close>s it raises itself (no such
  user; fewer available recipes than requested, with the two numbers of its message), the
  \<open>ValueError\<close> of \<open>itertools.combinations\<close> for a negative size, and the
  \<open>ZeroDivisionError\<close> of the average over zero recipes.
\<close>

datatype planner_error =
    UserNotFound int
  | NotEnoughRecipes int int
  | NegativeCombinationSize
  | ZeroDivisionError

text \<open>
  The work the planner does, as a trace it returns beside its result: one \<open>Scored\<close> for each
  call of \<open>score_recipe_for_user\<close>, one \<open>Evaluated\<close> for each pass of the loop over the
  combinations, in the order they happen.
\<close>

datatype work = Scored recipe | Evaluated "recipe list"

text \<open>\<open>itertools.combinations(xs, k)\<close>: the \<open>k\<close>-element selections in position order,
  listed lexicographically by position.\<close>

fun combinations :: "'a list \<Rightarrow> nat \<Rightarrow> 'a list list" where
  "combinations xs 0 = [[]]"
| "combinations [] (Suc k) = []"
| "combinations (x # xs) (Suc k) = map ((#) x) (combinations xs k) @ combinations xs (Suc k)"

definition recipe_to_dict :: "recipe \<Rightarrow> recipe_dict" where
  "recipe_to_dict r = \<lparr>dict_title = Some (title r), dict_ingredients = Some (ingredients r)\<rparr>"

text \<open>
  The loop that scores every recipe of the pool and fills the dict \<open>recipe_scores\<close>, in
  pool order. Every later lookup \<open>recipe_scores[r.id]\<close> is for a recipe of the pool, so the
  key is present; the model reads it with \<open>the\<close>.
\<close>

definition score_all ::
  "recipe list \<Rightarrow> user_preference list \<Rightarrow> work list \<times> (int \<rightharpoonup> real)" where
  "score_all available_recipes user_prefs =
     fold (\<lambda>r (trace, recipe_scores).
             (trace @ [Scored r],
              recipe_scores(recipe_id r \<mapsto> score_recipe_for_user r user_prefs)))
       available_recipes ([], Map.empty)"

text \<open>\<open>sorted(xs, key=..., reverse=True)\<close>: descending by key, elements of equal key in their
  original order.\<close>

definition sorted_desc :: "('a \<Rightarrow> real) \<Rightarrow> 'a list \<Rightarrow> 'a list" where
  "sorted_desc key xs = sort_key (\<lambda>x. - key x) xs"

record plan_stats =
  ingredient_count :: int
  avg_preference_score :: real
  combined_score :: real
  individual_scores :: "int \<rightharpoonup> real"
  savings_stats :: "savings_info option"
  unique_ingredients :: "string list"
  detailed_ingredients :: "(string \<times> usage list) list"
  max_ingredients_budget :: "int option"
  within_budget :: "bool option"

text \<open>The dict \<open>{r.id: recipe_scores[r.id] for r in combo}\<close>.\<close>

definition scores_of :: "(int \<rightharpoonup> real) \<Rightarrow> recipe list \<Rightarrow> (int \<rightharpoonup> real)" where
  "scores_of scores combo = fold (\<lambda>r m. m(recipe_id r \<mapsto> the (scores (recipe_id r)))) combo Map.empty"

text \<open>
  The three numbers the loop computes for one combination, in floats:
  \<open>sum(recipe_scores[r.id] for r in combo) / num_recipes\<close>, the ingredient count, and
  \<open>avg_pref_score - (ingredient_penalty * 0.5)\<close>.
\<close>

definition avg_pref_score :: "(int \<rightharpoonup> real) \<Rightarrow> int \<Rightarrow> recipe list \<Rightarrow> real" where
  "avg_pref_score scores num_recipes combo =
     float_div (float_sum (map (\<lambda>r. the (scores (recipe_id r))) combo))
       (float_of_int num_recipes)"

definition combo_ingredient_count :: "json_decoder \<Rightarrow> recipe list \<Rightarrow> int" where
  "combo_ingredient_count json_loads combo =
     count_ingredients_for_recipes json_loads (map recipe_to_dict combo)"

definition combo_combined_score ::
  "json_decoder \<Rightarrow> user \<Rightarrow> (int \<rightharpoonup> real) \<Rightarrow> int \<Rightarrow> recipe list \<Rightarrow> real" where
  "combo_combined_score json_loads u scores num_recipes combo =
     (let ingredient_count = combo_ingredient_count json_loads combo;
          ingredient_penalty =
            (if ingredient_count > max_ingredients_per_week u
             then ingredient_count - max_ingredients_per_week u else 0)
      in float_sub (avg_pref_score scores num_recipes combo)
           (float_mul (float_of_int ingredient_penalty) (1 / 2)))"

text \<open>
  The state of the search loop: \<open>best_score\<close> (\<open>None\<close> is \<open>float('-inf')\<close>, which every
  score exceeds), \<open>best_combination\<close> and \<open>best_stats\<close>.
\<close>

record search_state =
  best_score :: "real option"
  best_combination :: "recipe list option"
  best_stats :: "plan_stats option"

definition initial_state :: search_state where
  "initial_state = \<lparr>best_score = None, best_combination = None, best_stats = None\<rparr>"

definition exceeds :: "real \<Rightarrow> real option \<Rightarrow> bool" where
  "exceeds x best = (case best of None \<Rightarrow> True | Some b \<Rightarrow> x > b)"

text \<open>One pass of the loop body. The division by \<open>num_recipes\<close> raises when it is 0.\<close>

definition evaluate_combo ::
  "json_decoder \<Rightarrow> user \<Rightarrow> (int \<rightharpoonup> real) \<Rightarrow> int \<Rightarrow> recipe list \<Rightarrow> search_state
     \<Rightarrow> planner_error + search_state" where
  "evaluate_combo json_loads u scores num_recipes combo st =
     (if num_recipes = 0 then Inl ZeroDivisionError
      else
        (let combined = combo_combined_score json_loads u scores num_recipes combo
         in if exceeds combined (best_score st)
            then Inr \<lparr>best_score = Some combined, best_combination = Some combo,
                   best_stats = Some
                     \<lparr>ingredient_count = combo_ingredient_count json_loads combo,
                      avg_preference_score = py_round (avg_pref_score scores num_recipes combo) 2,
                      combined_score = py_round combined 2,
                      individual_scores = scores_of scores combo,
                      savings_stats = None, unique_ingredients = [],
                      detailed_ingredients = [], max_ingredients_budget = None,
                      within_budget = None\<rparr>\<rparr>
            else Inr st))"

text \<open>The loop over the combinations; each pass is recorded, also the one that raises.\<close>

fun search_loop ::
  "json_decoder \<Rightarrow> user \<Rightarrow> (int \<rightharpoonup> real) \<Rightarrow> int \<Rightarrow> recipe list list
     \<Rightarrow> work list \<times> search_state \<Rightarrow> work list \<times> (planner_error + search_state)" where
  "search_loop json_loads u scores num_recipes [] (trace, st) = (trace, Inr st)"
| "search_loop json_loads u scores num_recipes (combo # rest) (trace, st) =
     (case evaluate_combo json_loads u scores num_recipes combo st of
        Inl e \<Rightarrow> (trace @ [Evaluated combo], Inl e)
      | Inr st' \<Rightarrow>
          search_loop json_loads u scores num_recipes rest (trace @ [Evaluated combo], st'))"

text \<open>The fallback when the loop chose nothing: the top recipes by preference.\<close>

definition fallback_plan ::
  "json_decoder \<Rightarrow> (int \<rightharpoonup> real) \<Rightarrow> int \<Rightarrow> recipe list
     \<Rightarrow> planner_error + recipe list \<times> plan_stats" where
  "fallback_plan json_loads scores num_recipes available_recipes =
     (let sorted_recipes = sorted_desc (\<lambda>r. the (scores (recipe_id r))) available_recipes;
          best = take (nat num_recipes) sorted_recipes
      in if num_recipes = 0 then Inl ZeroDivisionError
         else Inr (best,
           \<lparr>ingredient_count = combo_ingredient_count json_loads best,
            avg_preference_score = py_round (avg_pref_score scores num_recipes best) 2,
            combined_score = py_round (avg_pref_score scores num_recipes best) 2,
            individual_scores = scores_of scores best,
            savings_stats = None, unique_ingredients = [],
            detailed_ingredients = [], max_ingredients_budget = None,
            within_budget = None\<rparr>))"

text \<open>\<open>best_stats.update({...})\<close>: the five entries added at the end.\<close>

definition detailed_stats :: "json_decoder \<Rightarrow> user \<Rightarrow> recipe list \<Rightarrow> plan_stats \<Rightarrow> plan_stats" where
  "detailed_stats json_loads u best stats =
     (let combo_dicts = map recipe_to_dict best;
          savings_info = calculate_ingredient_savings json_loads combo_dicts
      in stats
           \<lparr>savings_stats := Some savings_info,
            unique_ingredients :=
              sorted_list_of_set (extract_unique_ingredients json_loads combo_dicts),
            detailed_ingredients := extract_ingredients_with_details json_loads combo_dicts,
            max_ingredients_budget := Some (max_ingredients_per_week u),
            within_budget := Some (total_ingredients savings_info \<le> max_ingredients_per_week u)\<rparr>)"

text \<open>
  \<open>get_weekly_recommendations\<close>. Its queries are arguments: \<open>found_user\<close> is the result of
  the user query (\<open>None\<close>: no such user), \<open>user_prefs\<close> the user's preference rows and
  \<open>available_recipes\<close> the result of \<open>get_available_recipes\<close>. The result is the trace of
  the work done, with the raised exception or the returned pair.
\<close>

definition get_weekly_recommendations ::
  "json_decoder \<Rightarrow> int \<Rightarrow> user option \<Rightarrow> user_preference list \<Rightarrow> recipe list \<Rightarrow> int
     \<Rightarrow> work list \<times> (planner_error + recipe list \<times> plan_stats)" where
  "get_weekly_recommendations json_loads uid found_user user_prefs available_recipes num_recipes =
     (case found_user of
        None \<Rightarrow> ([], Inl (UserNotFound uid))
      | Some u \<Rightarrow>
          if int (length available_recipes) < num_recipes
          then ([], Inl (NotEnoughRecipes num_recipes (int (length available_recipes))))
          else
            (let (scored, scores) = score_all available_recipes user_prefs;
                 max_combinations = 10000
             in if num_recipes < 0 then (scored, Inl NegativeCombinationSize)
                else
                  (let total_combinations =
                         length (combinations [0..<length available_recipes] (nat num_recipes));
                       candidate_recipes =
                         (if total_combinations > max_combinations
                          then take (min 50 (length available_recipes))
                                 (sorted_desc (\<lambda>r. the (scores (recipe_id r))) available_recipes)
                          else available_recipes)
                   in case search_loop json_loads u scores num_recipes
                             (combinations candidate_recipes (nat num_recipes))
                             (scored, initial_state) of
                        (trace, Inl e) \<Rightarrow> (trace, Inl e)
                      | (trace, Inr st) \<Rightarrow>
                          (case best_combination st of
                             Some best \<Rightarrow>
                               (trace,
                                Inr (best, detailed_stats json_loads u best (the (best_stats st))))
                           | None \<Rightarrow>
                               (case fallback_plan json_loads scores num_recipes available_recipes of
                                  Inl e \<Rightarrow> (trace, Inl e)
                                | Inr (best, stats) \<Rightarrow>
                                    (trace, Inr (best, detailed_stats json_loads u best stats)))))))"

section \<open>The search objective as the specification words it\<close>

text \<open>The unique ingredients of a set of recipes, read from the recipes themselves: each
  line of each recipe normalized, empties and staples dropped, the results united.\<close>

definition recipe_ingredient_keys :: "json_decoder \<Rightarrow> recipe \<Rightarrow> string set" where
  "recipe_ingredient_keys json_loads r =
     set (filter (\<lambda>n. n \<noteq> [] \<and> \<not> is_pantry_staple n)
            (map (\<lambda>i. normalize_ingredient_name (original_text i))
               (case ingredients r of
                  Parsed entries \<Rightarrow> entries
                | Serialized s \<Rightarrow>
                    (case json_loads s of None \<Rightarrow> [] | Some entries \<Rightarrow> entries))))"

definition unique_count_by_spec :: "json_decoder \<Rightarrow> recipe list \<Rightarrow> int" where
  "unique_count_by_spec json_loads combo =
     int (card (\<Union>r\<in>set combo. recipe_ingredient_keys json_loads r))"

text \<open>\<open>combined = avg_pref - 0.5 * max(0, unique_ingredient_count - budget)\<close>, with
  \<open>avg_pref\<close> the sum of the recipes' own preference scores divided by \<open>k\<close>, in floats.\<close>

definition combined_by_spec ::
  "json_decoder \<Rightarrow> user_preference list \<Rightarrow> int \<Rightarrow> nat \<Rightarrow> recipe list \<Rightarrow> real" where
  "combined_by_spec json_loads user_prefs budget k combo =
     float_sub
       (float_div (float_sum (map (\<lambda>r. score_recipe_for_user r user_prefs) combo))
          (float_of_int (int k)))
       (float_mul (1 / 2)
          (float_of_int (max 0 (unique_count_by_spec json_loads combo - budget))))"

text \<open>The same objective read in exact arithmetic.\<close>

definition combined_exact ::
  "json_decoder \<Rightarrow> user_preference list \<Rightarrow> int \<Rightarrow> nat \<Rightarrow> recipe list \<Rightarrow> real" where
  "combined_exact json_loads user_prefs budget k combo =
     sum_list (map (\<lambda>r. score_recipe_for_user r user_prefs) combo) / real k
     - 0.5 * of_int (max 0 (unique_count_by_spec json_loads combo - budget))"

text \<open>"The first combination in enumeration order whose score is maximal": position \<open>i\<close> of
  the list, no element scoring more and every earlier one scoring less.\<close>

definition first_maximal :: "('a \<Rightarrow> real) \<Rightarrow> 'a list \<Rightarrow> nat \<Rightarrow> bool" where
  "first_maximal f cs i \<longleftrightarrow>
     i < length cs \<and> (\<forall>c \<in> set cs. f c \<le> f (cs ! i)) \<and> (\<forall>j < i. f (cs ! j) < f (cs ! i))"

text \<open>The invariant of the search loop after the combinations \<open>ps\<close>: nothing chosen
  yet, or the state holds the first maximal one of \<open>ps\<close> and its score.\<close>

definition loop_inv :: "(recipe list \<Rightarrow> real) \<Rightarrow> recipe list list \<Rightarrow> search_state \<Rightarrow> bool" where
  "loop_inv f ps st \<longleftrightarrow>
     (ps = [] \<and> best_score st = None \<and> best_combination st = None)
     \<or> (\<exists>i. first_maximal f ps i \<and> best_combination st = Some (ps ! i)
              \<and> best_score st = Some (f (ps ! i)) \<and> best_stats st \<noteq> None)"

text \<open>
  An example: four recipes with preference scores 2, 1, 1 and -1, the first one with two
  ingredients, and a budget of 0. Of the four triples, the first scores 4/3 - 1 and the
  last 1/3 - 0: equal as exact numbers, but in floats the first is the smaller by one unit
  in the last place.
\<close>

definition curry_dish :: recipe where
  "curry_dish =
     \<lparr>recipe_id = 1, title = ''Curry'',
      ingredients = Parsed [RawText ''rye'', Structured [(''original'', ''figs'')]],
      cuisine_type = Some ''Indian'', dish_type = None, difficulty = None,
      ready_in_minutes = None\<rparr>"

definition toast :: recipe where
  "toast =
     \<lparr>recipe_id = 2, title = ''Toast'', ingredients = Parsed [],
      cuisine_type = Some ''French'', dish_type = None, difficulty = None,
      ready_in_minutes = None\<rparr>"

definition crepe :: recipe where
  "crepe =
     \<lparr>recipe_id = 3, title = ''Crepe'', ingredients = Serialized ''[]'',
      cuisine_type = Some ''French'', dish_type = None, difficulty = None,
      ready_in_minutes = None\<rparr>"

definition porridge :: recipe where
  "porridge =
     \<lparr>recipe_id = 4, title = ''Porridge'', ingredients = Parsed [],
      cuisine_type = Some ''English'', dish_type = None, difficulty = None,
      ready_in_minutes = None\<rparr>"

definition example_pool :: "recipe list" where
  "example_pool = [curry_dish, toast, crepe, porridge]"

text \<open>A decoder for the example: the text of an empty list decodes, any other fails.\<close>

definition example_loads :: json_decoder where
  "example_loads s = (if s = ''[]'' then Some [] else None)"

definition example_user :: user where
  "example_user = \<lparr>user_id = 1, max_ingredients_per_week = 0\<rparr>"

definition example_user_prefs :: "user_preference list" where
  "example_user_prefs =
     [\<lparr>pref_user_id = 1, preference_type = ''cuisine_type'', preference_value = ''Indian'',
       score = 2, last_updated = 0\<rparr>,
      \<lparr>pref_user_id = 1, preference_type = ''cuisine_type'', preference_value = ''French'',
       score = 1, last_updated = 0\<rparr>,
      \<lparr>pref_user_id = 1, preference_type = ''cuisine_type'', preference_value = ''English'',
       score = -1, last_updated = 0\<rparr>]"

section \<open>Properties of the preference scorer\<close>

lemma bucket_by_spec_eq: "bucket_by_spec m = time_bucket m"
  by (simp add: bucket_by_spec_def time_bucket_def)

lemma pref_lookup_filter_aux:
  fixes ps :: "user_preference list"
  defines "f \<equiv> (\<lambda>pref (m :: pref_table).
                   m((preference_type pref, preference_value pref) \<mapsto> score pref))"
  assumes "t \<noteq> ct" and "m1 (t, v) = m2 (t, v)"
  shows "fold f (filter (\<lambda>p. preference_type p \<noteq> ct) ps) m1 (t, v) = fold f ps m2 (t, v)"
  using assms(3)
proof (induction ps arbitrary: m1 m2)
  case Nil
  then show ?case by simp
next
  case (Cons p ps)
  show ?case
  proof (cases "preference_type p = ct")
    case True
    have "m1 (t, v) = f p m2 (t, v)"
      using True Cons.prems assms(2) by (simp add: f_def)
    then have "fold f (filter (\<lambda>p. preference_type p \<noteq> ct) ps) m1 (t, v)
               = fold f ps (f p m2) (t, v)"
      by (rule Cons.IH)
    then show ?thesis using True by simp
  next
    case False
    have "f p m1 (t, v) = f p m2 (t, v)"
      using Cons.prems by (simp add: f_def)
    then have "fold f (filter (\<lambda>p. preference_type p \<noteq> ct) ps) (f p m1) (t, v)
               = fold f ps (f p m2) (t, v)"
      by (rule Cons.IH)
    then show ?thesis using False by simp
  qed
qed

lemma pref_lookup_filter:
  "t \<noteq> ct \<Longrightarrow>
   pref_lookup (filter (\<lambda>p. preference_type p \<noteq> ct) ps) (t, v) = pref_lookup ps (t, v)"
  unfolding pref_lookup_def by (rule pref_lookup_filter_aux) simp_all

lemma score_zero_minutes:
  "score_recipe_for_user (r\<lparr>ready_in_minutes := Some 0\<rparr>) prefs
   = score_recipe_for_user (r\<lparr>ready_in_minutes := None\<rparr>) prefs"
  by (simp add: score_recipe_for_user_def truthy_int_def Let_def)

lemma score_no_minutes_ignores_cooking_time:
  "score_recipe_for_user (r\<lparr>ready_in_minutes := None\<rparr>)
     (filter (\<lambda>p. preference_type p \<noteq> ''cooking_time'') prefs)
   = score_recipe_for_user (r\<lparr>ready_in_minutes := None\<rparr>) prefs"
  by (simp add: score_recipe_for_user_def truthy_int_def Let_def dict_get_def
      pref_lookup_filter)

text \<open>
  C4, as amended. For every recipe and every list of preference rows, the score is the sum
  of the table's entries (default 0) for cuisine_type, dish_type and difficulty, each
  skipped when its value is null or empty, and for the cooking-time bucket of
  ready_in_minutes (below 30 quick, 30 to 60 medium, above 60 long), skipped when
  ready_in_minutes is null or 0; and the score over an empty table is 0.
\<close>

theorem score_recipe_for_user_sum:
  "score_recipe_for_user r prefs = score_amended r (pref_lookup prefs)
   \<and> score_recipe_for_user r [] = 0"
proof
  show "score_recipe_for_user r prefs = score_amended r (pref_lookup prefs)"
    by (cases "cuisine_type r"; cases "dish_type r"; cases "difficulty r";
        cases "ready_in_minutes r")
       (simp_all add: score_recipe_for_user_def score_amended_def attr_score_def
          truthy_str_def truthy_int_def Let_def bucket_by_spec_eq)
  show "score_recipe_for_user r [] = 0"
    by (simp add: score_recipe_for_user_def pref_lookup_def dict_get_def Let_def)
qed

text \<open>
  C4 as stated fails: a recipe with ready_in_minutes = 0 and a table that scores the quick
  bucket 1. The stated sum is 1 (0 is below 30), the code returns 0.
\<close>

theorem score_as_claimed_counterexample:
  "score_recipe_for_user example_recipe example_prefs = 0
   \<and> score_as_claimed example_recipe (pref_lookup example_prefs) = 1"
  by (simp add: score_recipe_for_user_def score_as_claimed_def attr_score_def
      example_recipe_def example_prefs_def truthy_str_def truthy_int_def Let_def
      pref_lookup_def dict_get_def bucket_by_spec_def)

section \<open>Properties of the preference learner\<close>

lemma find_update_first_same:
  "(\<And>x. P x \<Longrightarrow> P (f x)) \<Longrightarrow> find P (update_first P f xs) = map_option f (find P xs)"
  by (induction xs) auto

lemma find_update_first_other:
  "(\<And>x. P x \<Longrightarrow> \<not> Q x) \<Longrightarrow> (\<And>x. P x \<Longrightarrow> \<not> Q (f x)) \<Longrightarrow>
   find Q (update_first P f xs) = find Q xs"
  by (induction xs) auto

lemma filter_update_first_other:
  "(\<And>x. P x \<Longrightarrow> \<not> Q x) \<Longrightarrow> (\<And>x. P x \<Longrightarrow> \<not> Q (f x)) \<Longrightarrow>
   filter Q (update_first P f xs) = filter Q xs"
  by (induction xs) auto

lemma find_append_new:
  "find Q (xs @ [y])
   = (case find Q xs of Some x \<Rightarrow> Some x | None \<Rightarrow> if Q y then Some y else None)"
  by (induction xs) auto

lemma update_noop: "\<not> truthy_str v \<Longrightarrow> update_user_preference now tbl uid t v d = tbl"
  by (simp add: update_user_preference_def)

lemma update_same_key:
  assumes "v \<noteq> []"
  shows "map_option score
           (find (pref_matches uid t v) (update_user_preference now tbl uid t (Some v) d))
         = Some (stored_score tbl uid t v + d)"
proof (cases "find (pref_matches uid t v) tbl")
  case None
  then show ?thesis
    using assms
    by (simp add: update_user_preference_def truthy_str_def find_append_new
        pref_matches_def stored_score_def)
next
  case (Some p)
  have "find (pref_matches uid t v)
          (update_first (pref_matches uid t v)
             (\<lambda>p. p\<lparr>score := score p + d, last_updated := now\<rparr>) tbl)
        = map_option (\<lambda>p. p\<lparr>score := score p + d, last_updated := now\<rparr>)
            (find (pref_matches uid t v) tbl)"
    by (rule find_update_first_same) (simp add: pref_matches_def)
  then show ?thesis
    using assms Some by (simp add: update_user_preference_def truthy_str_def stored_score_def)
qed

lemma update_other_rows:
  assumes "\<And>p. pref_matches uid t v p \<Longrightarrow> \<not> Q p"
    and "\<And>p s n. Q (p\<lparr>score := s, last_updated := n\<rparr>) = Q p"
  shows "filter Q (update_user_preference now tbl uid t (Some v) d) = filter Q tbl"
proof -
  let ?new = "\<lparr>pref_user_id = uid, preference_type = t, preference_value = v, score = d,
               last_updated = now\<rparr>"
  have "filter Q (update_first (pref_matches uid t v)
                    (\<lambda>p. p\<lparr>score := score p + d, last_updated := now\<rparr>) tbl)
        = filter Q tbl"
    by (rule filter_update_first_other) (use assms in auto)
  moreover have "\<not> Q ?new"
    using assms(1) [of ?new] by (simp add: pref_matches_def)
  ultimately show ?thesis
    by (simp add: update_user_preference_def truthy_str_def split: option.splits)
qed

lemma update_other_keys:
  assumes "(uid', t', v') \<noteq> (uid, t, v)"
  shows "find (pref_matches uid' t' v') (update_user_preference now tbl uid t (Some v) d)
         = find (pref_matches uid' t' v') tbl"
proof -
  let ?new = "\<lparr>pref_user_id = uid, preference_type = t, preference_value = v, score = d,
               last_updated = now\<rparr>"
  have "find (pref_matches uid' t' v')
          (update_first (pref_matches uid t v)
             (\<lambda>p. p\<lparr>score := score p + d, last_updated := now\<rparr>) tbl)
        = find (pref_matches uid' t' v') tbl"
    by (rule find_update_first_other) (use assms in \<open>auto simp: pref_matches_def\<close>)
  moreover have "\<not> pref_matches uid' t' v' ?new"
    using assms by (auto simp: pref_matches_def)
  ultimately show ?thesis
    by (simp add: update_user_preference_def truthy_str_def find_append_new
        split: option.splits)
qed

text \<open>
  C9. For every table, user, attribute type, value and delta: with a null or empty value
  the update returns the table unchanged; with any other value the row the query finds for
  (user, type, value) afterwards holds the score stored before (0 when there was no row)
  plus delta, the rows of every other key are the same as before, in the same order, and
  so is what the query finds for every other key.
\<close>

theorem update_user_preference_spec:
  "update_user_preference now tbl uid ptype None delta = tbl
   \<and> update_user_preference now tbl uid ptype (Some []) delta = tbl
   \<and> (v \<noteq> [] \<longrightarrow>
        map_option score
          (find (pref_matches uid ptype v)
             (update_user_preference now tbl uid ptype (Some v) delta))
        = Some (stored_score tbl uid ptype v + delta)
        \<and> filter (\<lambda>p. \<not> pref_matches uid ptype v p)
            (update_user_preference now tbl uid ptype (Some v) delta)
          = filter (\<lambda>p. \<not> pref_matches uid ptype v p) tbl
        \<and> (\<forall>uid' t' v'. (uid', t', v') \<noteq> (uid, ptype, v) \<longrightarrow>
              find (pref_matches uid' t' v')
                (update_user_preference now tbl uid ptype (Some v) delta)
              = find (pref_matches uid' t' v') tbl))"
proof (intro conjI impI allI)
  show "update_user_preference now tbl uid ptype None delta = tbl"
    by (rule update_noop) (simp add: truthy_str_def)
  show "update_user_preference now tbl uid ptype (Some []) delta = tbl"
    by (rule update_noop) (simp add: truthy_str_def)
next
  assume "v \<noteq> []"
  then show "map_option score
          (find (pref_matches uid ptype v)
             (update_user_preference now tbl uid ptype (Some v) delta))
        = Some (stored_score tbl uid ptype v + delta)"
    by (rule update_same_key)
next
  show "filter (\<lambda>p. \<not> pref_matches uid ptype v p)
            (update_user_preference now tbl uid ptype (Some v) delta)
          = filter (\<lambda>p. \<not> pref_matches uid ptype v p) tbl"
    by (rule update_other_rows) (simp_all add: pref_matches_def)
next
  fix uid' t' v'
  assume "(uid', t', v') \<noteq> (uid, ptype, v)"
  then show "find (pref_matches uid' t' v')
                (update_user_preference now tbl uid ptype (Some v) delta)
              = find (pref_matches uid' t' v') tbl"
    by (rule update_other_keys)
qed

text \<open>
  The theorem at a table holding the quick bucket at 1: adding 2 to an absent Italian
  cuisine entry creates it with score 2 and leaves the quick bucket's row as it was.
\<close>

theorem update_user_preference_spec_witness:
  "map_option score
     (find (pref_matches 1 ''cuisine_type'' ''Italian'')
        (update_user_preference 7 example_prefs 1 ''cuisine_type'' (Some ''Italian'') 2))
   = Some 2
   \<and> find (pref_matches 1 ''cooking_time'' ''quick (<30min)'')
       (update_user_preference 7 example_prefs 1 ''cuisine_type'' (Some ''Italian'') 2)
     = Some (hd example_prefs)"
  using update_user_preference_spec
    [of 7 example_prefs 1 "''cuisine_type''" 2 "''Italian''"]
  by (simp add: stored_score_def example_prefs_def pref_matches_def)

text \<open>
  C10. A recipe whose ready_in_minutes is 0 is scored exactly as the same recipe with
  ready_in_minutes missing, and its score does not depend on the cooking_time rows of
  the table (dropping them all changes nothing); rating it changes the table exactly as
  rating the same recipe with ready_in_minutes missing does, and leaves the cooking_time
  rows of the table as they were.
\<close>

theorem zero_minutes_no_cooking_time:
  "score_recipe_for_user (r\<lparr>ready_in_minutes := Some 0\<rparr>) prefs
     = score_recipe_for_user (r\<lparr>ready_in_minutes := None\<rparr>) prefs
   \<and> score_recipe_for_user (r\<lparr>ready_in_minutes := Some 0\<rparr>)
       (filter (\<lambda>p. preference_type p \<noteq> ''cooking_time'') prefs)
     = score_recipe_for_user (r\<lparr>ready_in_minutes := Some 0\<rparr>) prefs
   \<and> update_preferences_from_rating clock tbl uid (Some (r\<lparr>ready_in_minutes := Some 0\<rparr>)) rating
     = update_preferences_from_rating clock tbl uid (Some (r\<lparr>ready_in_minutes := None\<rparr>)) rating
   \<and> filter (\<lambda>p. preference_type p = ''cooking_time'')
       (update_preferences_from_rating clock tbl uid (Some (r\<lparr>ready_in_minutes := Some 0\<rparr>)) rating)
     = filter (\<lambda>p. preference_type p = ''cooking_time'') tbl"
proof (intro conjI)
  show "score_recipe_for_user (r\<lparr>ready_in_minutes := Some 0\<rparr>) prefs
     = score_recipe_for_user (r\<lparr>ready_in_minutes := None\<rparr>) prefs"
    by (rule score_zero_minutes)
  show "score_recipe_for_user (r\<lparr>ready_in_minutes := Some 0\<rparr>)
       (filter (\<lambda>p. preference_type p \<noteq> ''cooking_time'') prefs)
     = score_recipe_for_user (r\<lparr>ready_in_minutes := Some 0\<rparr>) prefs"
    by (simp only: score_zero_minutes score_no_minutes_ignores_cooking_time)
  show "update_preferences_from_rating clock tbl uid (Some (r\<lparr>ready_in_minutes := Some 0\<rparr>)) rating
     = update_preferences_from_rating clock tbl uid (Some (r\<lparr>ready_in_minutes := None\<rparr>)) rating"
    by (simp add: update_preferences_from_rating_def truthy_int_def Let_def)
  have keep: "filter (\<lambda>p. preference_type p = ''cooking_time'')
                (update_user_preference now t uid ty v d)
              = filter (\<lambda>p. preference_type p = ''cooking_time'') t"
    if "ty \<noteq> ''cooking_time''" for now t ty v d
  proof (cases "truthy_str v")
    case False
    then show ?thesis by (simp add: update_noop)
  next
    case True
    then obtain s where v: "v = Some s" by (auto simp: truthy_str_def split: option.splits)
    show ?thesis
      unfolding v by (rule update_other_rows) (use that in \<open>auto simp: pref_matches_def\<close>)
  qed
  show "filter (\<lambda>p. preference_type p = ''cooking_time'')
       (update_preferences_from_rating clock tbl uid (Some (r\<lparr>ready_in_minutes := Some 0\<rparr>)) rating)
     = filter (\<lambda>p. preference_type p = ''cooking_time'') tbl"
    by (simp add: update_preferences_from_rating_def truthy_int_def Let_def keep)
qed

section \<open>Properties of the ingredient normalizer and of staple detection\<close>

text \<open>
  C1. The normalizer at the five example lines of its docstring and of the specification:
  "1 (15oz) can black beans, drained" gives "black bean", "3 cloves garlic, minced" gives
  "garlic" and "Salt and pepper to taste" gives a text flagged as a staple, as stated; but
  "2 cups diced red onions" gives "red onion" (stated: "onion") and
  "1/2 cup fresh basil leaves" gives "basil leave" (stated: "basil").
\<close>

theorem normalize_ingredient_name_examples:
  "normalize_ingredient_name ''2 cups diced red onions'' = ''red onion''
   \<and> normalize_ingredient_name ''1 (15oz) can black beans, drained'' = ''black bean''
   \<and> normalize_ingredient_name ''3 cloves garlic, minced'' = ''garlic''
   \<and> normalize_ingredient_name ''1/2 cup fresh basil leaves'' = ''basil leave''
   \<and> normalize_ingredient_name ''Salt and pepper to taste'' = ''salt pepper taste''
   \<and> is_pantry_staple ''salt pepper taste''"
  by code_simp

lemma rmatch_bounded_literal:
  "rmatch (Seq WordB (Seq (Lit w) WordB)) pw s \<noteq> [] \<longleftrightarrow>
     at_boundary pw s \<and> prefix w s
     \<and> at_boundary (if w = [] then pw else is_word (last w)) (drop (length w) s)"
  by simp

lemma re_search_from_iff:
  "re_search_from r pw s \<longleftrightarrow>
     (\<exists>pre post. s = pre @ post
        \<and> rmatch r (if pre = [] then pw else is_word (last pre)) post \<noteq> [])"
proof (induction s arbitrary: pw)
  case Nil
  then show ?case by simp
next
  case (Cons c cs)
  show ?case
  proof
    assume "re_search_from r pw (c # cs)"
    then consider "rmatch r pw (c # cs) \<noteq> []" | "re_search_from r (is_word c) cs" by auto
    then show "\<exists>pre post. c # cs = pre @ post
        \<and> rmatch r (if pre = [] then pw else is_word (last pre)) post \<noteq> []"
    proof cases
      case 1
      then have "c # cs = [] @ (c # cs) \<and> rmatch r (if [] = ([]::string) then pw else is_word (last [])) (c # cs) \<noteq> []" by simp
      then show ?thesis by blast
    next
      case 2
      then obtain pre post where pp: "cs = pre @ post"
        "rmatch r (if pre = [] then is_word c else is_word (last pre)) post \<noteq> []"
        using Cons.IH by blast
      then have "c # cs = (c # pre) @ post \<and> rmatch r (if c # pre = [] then pw else is_word (last (c # pre))) post \<noteq> []"
        by auto
      then show ?thesis by blast
    qed
  next
    assume "\<exists>pre post. c # cs = pre @ post
        \<and> rmatch r (if pre = [] then pw else is_word (last pre)) post \<noteq> []"
    then obtain pre post where pp: "c # cs = pre @ post"
        "rmatch r (if pre = [] then pw else is_word (last pre)) post \<noteq> []" by blast
    show "re_search_from r pw (c # cs)"
    proof (cases pre)
      case Nil
      then have "rmatch r pw (c # cs) \<noteq> []" using pp by auto
      then show ?thesis by simp
    next
      case (Cons a pre')
      then have "cs = pre' @ post" "a = c" using pp by auto
      moreover have "rmatch r (if pre' = [] then is_word c else is_word (last pre')) post \<noteq> []"
        using pp(2) Cons \<open>a = c\<close> by auto
      ultimately have "re_search_from r (is_word c) cs"
        using Cons.IH by blast
      then show ?thesis by simp
    qed
  qed
qed

lemma at_boundary_iff:
  "at_boundary (if pre = [] then False else is_word (last pre)) post \<longleftrightarrow> word_boundary_between pre post"
  by (cases post) (auto simp: at_boundary_def word_boundary_between_def)

lemma search_bounded_literal:
  "re_search (Seq WordB (Seq (Lit w) WordB)) s \<longleftrightarrow> occurs_at_word_boundaries w s"
proof
  assume "re_search (Seq WordB (Seq (Lit w) WordB)) s"
  then obtain pre post where pp: "s = pre @ post"
    "rmatch (Seq WordB (Seq (Lit w) WordB)) (if pre = [] then False else is_word (last pre)) post \<noteq> []"
    unfolding re_search_def re_search_from_iff by blast
  let ?pw = "if pre = [] then False else is_word (last pre)"
  from pp(2) have b1: "at_boundary ?pw post" and pf: "prefix w post"
    and b2: "at_boundary (if w = [] then ?pw else is_word (last w)) (drop (length w) post)"
    unfolding rmatch_bounded_literal by blast+
  from pf obtain post' where post': "post = w @ post'" by (auto simp: prefix_def)
  have "(if w = [] then ?pw else is_word (last w)) = (if pre @ w = [] then False else is_word (last (pre @ w)))"
    by auto
  with b2 post' have "word_boundary_between (pre @ w) post'"
    using at_boundary_iff[of "pre @ w" post'] by simp
  moreover have "word_boundary_between pre (w @ post')"
    using b1 post' at_boundary_iff[of pre post] by simp
  ultimately show "occurs_at_word_boundaries w s"
    unfolding occurs_at_word_boundaries_def using pp(1) post' by blast
next
  assume "occurs_at_word_boundaries w s"
  then obtain pre post where pp: "s = pre @ w @ post"
    "word_boundary_between pre (w @ post)" "word_boundary_between (pre @ w) post"
    unfolding occurs_at_word_boundaries_def by blast
  let ?pw = "if pre = [] then False else is_word (last pre)"
  have e: "(if w = [] then ?pw else is_word (last w)) = (if pre @ w = [] then False else is_word (last (pre @ w)))"
    by auto
  have "at_boundary ?pw (w @ post)" using pp(2) at_boundary_iff by blast
  moreover have "at_boundary (if w = [] then ?pw else is_word (last w)) post"
    unfolding e using pp(3) at_boundary_iff by blast
  ultimately have "rmatch (Seq WordB (Seq (Lit w) WordB)) ?pw (w @ post) \<noteq> []"
    unfolding rmatch_bounded_literal by simp
  then show "re_search (Seq WordB (Seq (Lit w) WordB)) s"
    unfolding re_search_def re_search_from_iff using pp(1) by blast
qed

lemma staple_matches_iff:
  "staple_matches t staple
   = (if CHR '' '' \<in> set staple then sublist staple t
      else occurs_at_word_boundaries staple t)"
  by (simp add: staple_matches_def re_escape_def search_bounded_literal)

text \<open>
  C5. \<open>is_pantry_staple s\<close> holds exactly when the lowercased, stripped \<open>s\<close> (a normalized
  name is its own lowercased, stripped form) is a staple of the curated set, or contains a
  multi-word staple as a substring, or contains a single-word staple between word
  boundaries; one staple matches by substring containment when it has a space and by
  word-boundary occurrence when it has none. "salt" and "olive oil" are staples,
  "red pepper flakes" is not, and "boiled" is not ("oil" inside a longer word), while
  "baking sodas" is (the multi-word staple "baking soda" is a substring of it).
\<close>

theorem is_pantry_staple_spec:
  "(is_pantry_staple s \<longleftrightarrow> staple_by_spec (strip (lower s)))
   \<and> staple_matches t staple
     = (if CHR '' '' \<in> set staple then sublist staple t
        else occurs_at_word_boundaries staple t)
   \<and> is_pantry_staple ''salt''
   \<and> \<not> is_pantry_staple ''red pepper flakes''
   \<and> is_pantry_staple ''olive oil''
   \<and> \<not> staple_matches ''boiled'' ''oil''
   \<and> \<not> is_pantry_staple ''boiled''
   \<and> is_pantry_staple ''baking sodas''"
proof (intro conjI)
  show "is_pantry_staple s \<longleftrightarrow> staple_by_spec (strip (lower s))"
    unfolding is_pantry_staple_def staple_by_spec_def Let_def list_ex_iff staple_matches_iff
    by auto
  show "staple_matches t staple
     = (if CHR '' '' \<in> set staple then sublist staple t
        else occurs_at_word_boundaries staple t)"
    by (rule staple_matches_iff)
  show "is_pantry_staple ''salt''" by code_simp
  show "\<not> is_pantry_staple ''red pepper flakes''" by code_simp
  show "is_pantry_staple ''olive oil''" by code_simp
  show "\<not> staple_matches ''boiled'' ''oil''" by code_simp
  show "\<not> is_pantry_staple ''boiled''" by code_simp
  show "is_pantry_staple ''baking sodas''" by code_simp
qed

section \<open>Properties of the ingredient aggregator\<close>

lemma fold_add_ingredient:
  "fold add_ingredient entries acc
   = acc \<union> set (filter (\<lambda>n. n \<noteq> [] \<and> \<not> is_pantry_staple n)
                 (map (\<lambda>i. normalize_ingredient_name (original_text i)) entries))"
  by (induction entries arbitrary: acc) (auto simp: add_ingredient_def Let_def)

lemma fold_recipes:
  "fold (\<lambda>recipe unique_ingredients.
           fold add_ingredient (parsed_ingredients json_loads recipe) unique_ingredients)
     recipes acc
   = acc \<union> (\<Union>r\<in>set recipes. ingredient_keys json_loads r)"
  by (induction recipes arbitrary: acc) (auto simp: fold_add_ingredient ingredient_keys_def)

lemma extract_unique_ingredients_union:
  "extract_unique_ingredients json_loads recipes = (\<Union>r\<in>set recipes. ingredient_keys json_loads r)"
  by (simp add: extract_unique_ingredients_def fold_recipes)

lemma finite_ingredient_keys: "finite (ingredient_keys json_loads r)"
  by (simp add: ingredient_keys_def)

lemma finite_extract: "finite (extract_unique_ingredients json_loads recipes)"
  by (simp add: extract_unique_ingredients_union finite_ingredient_keys)

lemma card_union_le_sum:
  "card (\<Union>r\<in>set recipes. ingredient_keys json_loads r)
   \<le> sum_list (map (\<lambda>r. card (ingredient_keys json_loads r)) recipes)"
proof (induction recipes)
  case Nil
  then show ?case by simp
next
  case (Cons r rs)
  have "card (ingredient_keys json_loads r \<union> (\<Union>r\<in>set rs. ingredient_keys json_loads r))
        \<le> card (ingredient_keys json_loads r) + card (\<Union>r\<in>set rs. ingredient_keys json_loads r)"
    by (rule card_Un_le)
  with Cons show ?case by simp
qed

lemma count_single:
  "count_ingredients_for_recipes json_loads [r] = int (card (ingredient_keys json_loads r))"
  by (simp add: count_ingredients_for_recipes_def extract_unique_ingredients_union)

lemma sum_list_int: "sum_list (map (\<lambda>r. int (f r)) xs) = int (sum_list (map f xs))"
  by (induction xs) auto

lemmas float_eval =
  fl_def ilog2_def pow2_def round_half_even_def float_add_def float_sub_def float_mul_def
  float_div_def float_of_int_def int_truediv_def float_sum_def py_round_def Let_def

lemma fl_0: "fl 0 = 0"
  by (simp add: fl_def)

lemma py_round_0: "py_round 0 n = 0"
  by (simp add: py_round_def round_half_even_def fl_0)

lemma savings_total_le_separate:
  "int (card (\<Union>r\<in>set recipes. ingredient_keys json_loads r))
   \<le> sum_list (map (\<lambda>r. int (card (ingredient_keys json_loads r))) recipes)"
  unfolding sum_list_int using card_union_le_sum [of json_loads recipes] by simp

text \<open>
  C6. For every list of recipes the savings record has: total_ingredients the size of the
  union of the recipes' normalized, non-empty, non-staple ingredients; ingredients_if_separate
  the sum over the list of each recipe's own such count; savings their difference;
  overlap_percentage round(savings / if_separate * 100, 1), in Python's float arithmetic,
  when if_separate is positive and 0 otherwise; and savings is never negative, that is,
  if_separate is at least total. (At savings 23 of 80 the float product is
  28.749999999999996, and the rounded percentage is the double 28.7.)
\<close>

theorem calculate_ingredient_savings_spec:
  "total_ingredients (calculate_ingredient_savings json_loads recipes)
     = int (card (\<Union>r\<in>set recipes. ingredient_keys json_loads r))
   \<and> ingredients_if_separate (calculate_ingredient_savings json_loads recipes)
     = sum_list (map (\<lambda>r. int (card (ingredient_keys json_loads r))) recipes)
   \<and> savings (calculate_ingredient_savings json_loads recipes)
     = ingredients_if_separate (calculate_ingredient_savings json_loads recipes)
       - total_ingredients (calculate_ingredient_savings json_loads recipes)
   \<and> overlap_percentage (calculate_ingredient_savings json_loads recipes)
     = (if ingredients_if_separate (calculate_ingredient_savings json_loads recipes) > 0
        then py_round
               (float_mul
                  (int_truediv (savings (calculate_ingredient_savings json_loads recipes))
                     (ingredients_if_separate (calculate_ingredient_savings json_loads recipes)))
                  (float_of_int 100)) 1
        else 0)
   \<and> savings (calculate_ingredient_savings json_loads recipes) \<ge> 0
   \<and> ingredients_if_separate (calculate_ingredient_savings json_loads recipes)
     \<ge> total_ingredients (calculate_ingredient_savings json_loads recipes)
   \<and> float_mul (int_truediv 23 80) (float_of_int 100) = 8092405580431359 / 281474976710656
   \<and> py_round (float_mul (int_truediv 23 80) (float_of_int 100)) 1
     = 8078331831595827 / 281474976710656"
proof -
  define sv where "sv = calculate_ingredient_savings json_loads recipes"
  have t: "total_ingredients sv = int (card (\<Union>r\<in>set recipes. ingredient_keys json_loads r))"
    by (simp add: sv_def calculate_ingredient_savings_def Let_def
        count_ingredients_for_recipes_def extract_unique_ingredients_union)
  have s: "ingredients_if_separate sv
           = sum_list (map (\<lambda>r. int (card (ingredient_keys json_loads r))) recipes)"
    by (simp add: sv_def calculate_ingredient_savings_def Let_def count_single)
  have d: "savings sv = ingredients_if_separate sv - total_ingredients sv"
    by (simp add: sv_def calculate_ingredient_savings_def Let_def)
  have p: "overlap_percentage sv
     = (if ingredients_if_separate sv > 0
        then py_round
               (float_mul (int_truediv (savings sv) (ingredients_if_separate sv))
                  (float_of_int 100)) 1
        else 0)"
    by (simp add: sv_def calculate_ingredient_savings_def Let_def py_round_0)
  have le: "total_ingredients sv \<le> ingredients_if_separate sv"
    unfolding t s by (rule savings_total_le_separate)
  have nonneg: "savings sv \<ge> 0"
    using d le by simp
  have e1: "float_mul (int_truediv 23 80) (float_of_int 100)
            = 8092405580431359 / 281474976710656"
    by (simp add: float_eval)
  have e2: "py_round (float_mul (int_truediv 23 80) (float_of_int 100)) 1
            = 8078331831595827 / 281474976710656"
    by (simp add: float_eval)
  show ?thesis
    using t s d p le nonneg e1 e2 unfolding sv_def by blast
qed

text \<open>
  C7. Union monotonicity: when every recipe of the list A is a recipe of the list B, the
  unique ingredients extracted from A are among those extracted from B, and so are no more
  in number.
\<close>

theorem extract_unique_ingredients_mono:
  assumes "set A \<subseteq> set B"
  shows "extract_unique_ingredients json_loads A \<subseteq> extract_unique_ingredients json_loads B
    \<and> card (extract_unique_ingredients json_loads A)
      \<le> card (extract_unique_ingredients json_loads B)
    \<and> count_ingredients_for_recipes json_loads A \<le> count_ingredients_for_recipes json_loads B"
proof -
  have sub: "extract_unique_ingredients json_loads A \<subseteq> extract_unique_ingredients json_loads B"
    using assms unfolding extract_unique_ingredients_union by blast
  have "card (extract_unique_ingredients json_loads A)
        \<le> card (extract_unique_ingredients json_loads B)"
    using sub by (rule card_mono [OF finite_extract])
  then show ?thesis
    using sub by (simp add: count_ingredients_for_recipes_def)
qed

text \<open>The theorem at a one-recipe list inside a three-recipe list.\<close>

theorem extract_unique_ingredients_mono_witness:
  "card (extract_unique_ingredients (\<lambda>_. None) [bean_recipe])
   \<le> card (extract_unique_ingredients (\<lambda>_. None) [garlic_recipe, broken_recipe, bean_recipe])"
  using extract_unique_ingredients_mono
    [where A = "[bean_recipe]" and B = "[garlic_recipe, broken_recipe, bean_recipe]"
       and json_loads = "\<lambda>_. None"]
  by simp

text \<open>
  C8. A recipe whose ingredients value is a string that fails to decode has an empty
  ingredient list: alone it yields no ingredient and a count of 0, and anywhere in a list
  of recipes it changes neither the extracted set nor the count (extraction has no failing
  outcome).
\<close>

theorem unparsable_ingredients_contribute_nothing:
  assumes "dict_ingredients r = Some (Serialized s)" and "json_loads s = None"
  shows "parsed_ingredients json_loads r = []
    \<and> extract_unique_ingredients json_loads [r] = {}
    \<and> count_ingredients_for_recipes json_loads [r] = 0
    \<and> extract_unique_ingredients json_loads (before @ r # after)
      = extract_unique_ingredients json_loads (before @ after)
    \<and> count_ingredients_for_recipes json_loads (before @ r # after)
      = count_ingredients_for_recipes json_loads (before @ after)"
proof -
  have p: "parsed_ingredients json_loads r = []"
    using assms by (simp add: parsed_ingredients_def)
  then have k: "ingredient_keys json_loads r = {}"
    by (simp add: ingredient_keys_def)
  show ?thesis
    using p k by (simp add: extract_unique_ingredients_union count_ingredients_for_recipes_def)
qed

text \<open>The theorem at a recipe whose ingredients text is not JSON, between two others.\<close>

theorem unparsable_ingredients_contribute_nothing_witness:
  "extract_unique_ingredients (\<lambda>_. None) [broken_recipe] = {}
   \<and> count_ingredients_for_recipes (\<lambda>_. None) [broken_recipe] = 0
   \<and> extract_unique_ingredients (\<lambda>_. None) [garlic_recipe, broken_recipe, bean_recipe]
     = extract_unique_ingredients (\<lambda>_. None) [garlic_recipe, bean_recipe]"
  using unparsable_ingredients_contribute_nothing
    [where r = broken_recipe and s = "''[not json''" and json_loads = "\<lambda>_. None"
       and before = "[garlic_recipe]" and after = "[bean_recipe]"]
  by (simp add: broken_recipe_def)

section \<open>Properties of the weekly combination search\<close>

lemma length_combinations: "length (combinations xs k) = length xs choose k"
  by (induction xs k rule: combinations.induct) auto

lemma in_combinations_iff:
  "ys \<in> set (combinations xs k) \<longleftrightarrow> subseq ys xs \<and> length ys = k"
proof (induction xs k arbitrary: ys rule: combinations.induct)
  case (1 xs)
  then show ?case by auto
next
  case (2 k)
  then show ?case by auto
next
  case (3 x xs k)
  show ?case
  proof (cases ys)
    case Nil
    then show ?thesis using 3 by auto
  next
    case (Cons y ys')
    show ?thesis
    proof (cases "y = x")
      case True
      then show ?thesis using 3 Cons by (auto dest: subseq_Cons')
    next
      case False
      then show ?thesis using 3 Cons by auto
    qed
  qed
qed

lemma fold_upd_other:
  "key \<notin> k ` set xs \<Longrightarrow> fold (\<lambda>r m. m(k r \<mapsto> v r)) xs m0 key = m0 key"
  by (induction xs arbitrary: m0) auto

lemma fold_upd_lookup:
  fixes k :: "'a \<Rightarrow> 'b" and v :: "'a \<Rightarrow> 'c"
  defines "f \<equiv> (\<lambda>r (m :: 'b \<rightharpoonup> 'c). m(k r \<mapsto> v r))"
  assumes "distinct (map k xs)" and "x \<in> set xs"
  shows "fold f xs m0 (k x) = Some (v x)"
  using assms(2,3)
proof (induction xs arbitrary: m0)
  case Nil
  then show ?case by simp
next
  case (Cons a xs)
  have step: "fold f (a # xs) m0 = fold f xs (f a m0)" by simp
  show ?case
  proof (cases "x \<in> set xs")
    case True
    moreover have "distinct (map k xs)" using Cons.prems by simp
    ultimately have "fold f xs (f a m0) (k x) = Some (v x)"
      using Cons.IH by blast
    then show ?thesis unfolding step .
  next
    case False
    then have xa: "x = a" using Cons.prems by simp
    have "k a \<notin> k ` set xs" using Cons.prems by simp
    then have "fold f xs (f a m0) (k a) = f a m0 (k a)"
      unfolding f_def by (rule fold_upd_other)
    also have "\<dots> = Some (v a)" by (simp add: f_def)
    finally show ?thesis unfolding step xa .
  qed
qed

lemma score_all_fold:
  "fold (\<lambda>r (trace, recipe_scores).
           (trace @ [Scored r],
            recipe_scores(recipe_id r \<mapsto> score_recipe_for_user r user_prefs)))
     pool (trace0, m0)
   = (trace0 @ map Scored pool,
      fold (\<lambda>r m. m(recipe_id r \<mapsto> score_recipe_for_user r user_prefs)) pool m0)"
proof (induction pool arbitrary: trace0 m0)
  case Nil
  then show ?case by simp
next
  case (Cons r pool)
  show ?case
    unfolding fold_Cons comp_apply case_prod_conv Cons.IH by simp
qed

lemma score_all_eq:
  "score_all pool user_prefs
   = (map Scored pool,
      fold (\<lambda>r m. m(recipe_id r \<mapsto> score_recipe_for_user r user_prefs)) pool Map.empty)"
  unfolding score_all_def score_all_fold by simp

lemma recipe_scores_lookup:
  assumes "distinct (map recipe_id pool)" and "r \<in> set pool"
  shows "snd (score_all pool prefs) (recipe_id r) = Some (score_recipe_for_user r prefs)"
  unfolding score_all_eq snd_conv using assms by (rule fold_upd_lookup)

lemma subseq_set: "subseq c pool \<Longrightarrow> set c \<subseteq> set pool"
  by (auto dest: list_emb_set)

lemma first_maximal_single: "first_maximal f [c] 0"
  by (simp add: first_maximal_def)

lemma first_maximal_keep:
  assumes "first_maximal f ps i" and "f c \<le> f (ps ! i)"
  shows "first_maximal f (ps @ [c]) i \<and> (ps @ [c]) ! i = ps ! i"
  using assms by (auto simp: first_maximal_def nth_append)

lemma first_maximal_replace:
  assumes "first_maximal f ps i" and "f c > f (ps ! i)"
  shows "first_maximal f (ps @ [c]) (length ps)"
  unfolding first_maximal_def
proof (intro conjI ballI allI impI)
  show "length ps < length (ps @ [c])" by simp
next
  fix c' assume "c' \<in> set (ps @ [c])"
  then consider "c' \<in> set ps" | "c' = c" by auto
  then show "f c' \<le> f ((ps @ [c]) ! length ps)"
  proof cases
    case 1
    then have "f c' \<le> f (ps ! i)" using assms(1) by (simp add: first_maximal_def)
    then show ?thesis using assms(2) by simp
  next
    case 2
    then show ?thesis by simp
  qed
next
  fix j assume "j < length ps"
  then have "f (ps ! j) \<le> f (ps ! i)" using assms(1) by (simp add: first_maximal_def)
  then show "f ((ps @ [c]) ! j) < f ((ps @ [c]) ! length ps)"
    using assms(2) \<open>j < length ps\<close> by (simp add: nth_append)
qed

lemma evaluate_combo_better:
  assumes "num_recipes \<noteq> 0"
    and "exceeds (combo_combined_score json_loads u scores num_recipes c) (best_score st)"
  shows "\<exists>st'. evaluate_combo json_loads u scores num_recipes c st = Inr st'
           \<and> best_score st' = Some (combo_combined_score json_loads u scores num_recipes c)
           \<and> best_combination st' = Some c \<and> best_stats st' \<noteq> None"
  using assms by (simp add: evaluate_combo_def Let_def)

lemma evaluate_combo_not_better:
  assumes "num_recipes \<noteq> 0"
    and "\<not> exceeds (combo_combined_score json_loads u scores num_recipes c) (best_score st)"
  shows "evaluate_combo json_loads u scores num_recipes c st = Inr st"
  using assms by (simp add: evaluate_combo_def Let_def)

lemma loop_invI:
  assumes "first_maximal f ps i" and "best_combination st = Some (ps ! i)"
    and "best_score st = Some (f (ps ! i))" and "best_stats st \<noteq> None"
  shows "loop_inv f ps st"
  unfolding loop_inv_def
  by (rule disjI2, rule exI [of _ i]) (simp add: assms)

lemma evaluate_combo_inv:
  assumes "num_recipes \<noteq> 0" and "loop_inv (combo_combined_score json_loads u scores num_recipes) ps st"
  shows "\<exists>st'. evaluate_combo json_loads u scores num_recipes c st = Inr st'
           \<and> loop_inv (combo_combined_score json_loads u scores num_recipes) (ps @ [c]) st'"
proof -
  let ?f = "combo_combined_score json_loads u scores num_recipes"
  have "(ps = [] \<and> best_score st = None \<and> best_combination st = None)
        \<or> (\<exists>i. first_maximal ?f ps i \<and> best_combination st = Some (ps ! i)
              \<and> best_score st = Some (?f (ps ! i)) \<and> best_stats st \<noteq> None)"
    using assms(2) unfolding loop_inv_def .
  then show ?thesis
  proof (elim disjE exE conjE)
    assume empty: "ps = []" "best_score st = None" "best_combination st = None"
    have "exceeds (?f c) (best_score st)" using empty(2) by (simp add: exceeds_def)
    from evaluate_combo_better [OF assms(1) this]
    obtain st' where st': "evaluate_combo json_loads u scores num_recipes c st = Inr st'"
      "best_score st' = Some (?f c)" "best_combination st' = Some c" "best_stats st' \<noteq> None"
      by (elim exE conjE)
    have "loop_inv ?f (ps @ [c]) st'"
    proof (rule loop_invI [where i = 0])
      show "first_maximal ?f (ps @ [c]) 0" using empty(1) by (simp add: first_maximal_single)
      show "best_combination st' = Some ((ps @ [c]) ! 0)" using empty(1) st'(3) by simp
      show "best_score st' = Some (?f ((ps @ [c]) ! 0))" using empty(1) st'(2) by simp
      show "best_stats st' \<noteq> None" by (rule st'(4))
    qed
    with st'(1) show ?thesis by (intro exI conjI)
  next
    fix i
    assume some: "first_maximal ?f ps i" "best_combination st = Some (ps ! i)"
        "best_score st = Some (?f (ps ! i))" "best_stats st \<noteq> None"
    show ?thesis
    proof (cases "?f c > ?f (ps ! i)")
      case True
      then have "exceeds (?f c) (best_score st)" using some(3) by (simp add: exceeds_def)
      from evaluate_combo_better [OF assms(1) this]
      obtain st' where st': "evaluate_combo json_loads u scores num_recipes c st = Inr st'"
        "best_score st' = Some (?f c)" "best_combination st' = Some c" "best_stats st' \<noteq> None"
        by (elim exE conjE)
      have "loop_inv ?f (ps @ [c]) st'"
      proof (rule loop_invI [where i = "length ps"])
        show "first_maximal ?f (ps @ [c]) (length ps)"
          using some(1) True by (rule first_maximal_replace)
        show "best_combination st' = Some ((ps @ [c]) ! length ps)" using st'(3) by simp
        show "best_score st' = Some (?f ((ps @ [c]) ! length ps))" using st'(2) by simp
        show "best_stats st' \<noteq> None" by (rule st'(4))
      qed
      with st'(1) show ?thesis by (intro exI conjI)
    next
      case False
      then have "\<not> exceeds (?f c) (best_score st)" using some(3) by (simp add: exceeds_def)
      then have ev: "evaluate_combo json_loads u scores num_recipes c st = Inr st"
        by (rule evaluate_combo_not_better [OF assms(1)])
      from False have le: "?f c \<le> ?f (ps ! i)" by simp
      have keep: "first_maximal ?f (ps @ [c]) i \<and> (ps @ [c]) ! i = ps ! i"
        using some(1) le by (rule first_maximal_keep)
      have "loop_inv ?f (ps @ [c]) st"
      proof (rule loop_invI [where i = i])
        show "first_maximal ?f (ps @ [c]) i" using keep by simp
        show "best_combination st = Some ((ps @ [c]) ! i)" using keep some(2) by simp
        show "best_score st = Some (?f ((ps @ [c]) ! i))" using keep some(3) by simp
        show "best_stats st \<noteq> None" by (rule some(4))
      qed
      with ev show ?thesis by (intro exI conjI)
    qed
  qed
qed

lemma search_loop_inv:
  assumes "num_recipes \<noteq> 0" and "loop_inv (combo_combined_score json_loads u scores num_recipes) ps st"
  shows "\<exists>st'. search_loop json_loads u scores num_recipes cs (trace, st)
                 = (trace @ map Evaluated cs, Inr st')
           \<and> loop_inv (combo_combined_score json_loads u scores num_recipes) (ps @ cs) st'"
  using assms(2)
proof (induction cs arbitrary: ps st trace)
  case Nil
  then show ?case by simp
next
  case (Cons c cs)
  obtain st1 where st1: "evaluate_combo json_loads u scores num_recipes c st = Inr st1"
    "loop_inv (combo_combined_score json_loads u scores num_recipes) (ps @ [c]) st1"
    using evaluate_combo_inv [OF assms(1) Cons.prems] by blast
  from Cons.IH [OF st1(2), of "trace @ [Evaluated c]"] st1(1) show ?case by simp
qed

lemma search_loop_first_maximal:
  assumes "num_recipes \<noteq> 0" and "cs \<noteq> []"
  shows "\<exists>st i. search_loop json_loads u scores num_recipes cs (trace, initial_state)
                  = (trace @ map Evaluated cs, Inr st)
           \<and> first_maximal (combo_combined_score json_loads u scores num_recipes) cs i
           \<and> best_combination st = Some (cs ! i) \<and> best_stats st \<noteq> None"
proof -
  have "loop_inv (combo_combined_score json_loads u scores num_recipes) [] initial_state"
    by (simp add: loop_inv_def initial_state_def)
  from search_loop_inv [OF assms(1) this, of cs trace]
  obtain st' where st': "search_loop json_loads u scores num_recipes cs (trace, initial_state)
                 = (trace @ map Evaluated cs, Inr st')"
    "loop_inv (combo_combined_score json_loads u scores num_recipes) cs st'"
    by auto
  from st'(2) assms(2) obtain i where
    "first_maximal (combo_combined_score json_loads u scores num_recipes) cs i"
    "best_combination st' = Some (cs ! i)" "best_stats st' \<noteq> None"
    unfolding loop_inv_def by auto
  with st'(1) show ?thesis by blast
qed

lemma ingredient_keys_recipe_to_dict:
  "ingredient_keys json_loads (recipe_to_dict r) = recipe_ingredient_keys json_loads r"
  by (simp add: ingredient_keys_def recipe_ingredient_keys_def parsed_ingredients_def
      recipe_to_dict_def split: ingredients_field.splits option.splits)

lemma combo_ingredient_count_by_spec:
  "combo_ingredient_count json_loads c = unique_count_by_spec json_loads c"
  by (simp add: combo_ingredient_count_def count_ingredients_for_recipes_def
      unique_count_by_spec_def extract_unique_ingredients_union ingredient_keys_recipe_to_dict)

lemma combined_score_by_spec:
  assumes "distinct (map recipe_id pool)" and "set c \<subseteq> set pool"
  shows "combo_combined_score json_loads u (snd (score_all pool prefs)) (int k) c
         = combined_by_spec json_loads prefs (max_ingredients_per_week u) k c"
proof -
  have eq: "map (\<lambda>r. the (snd (score_all pool prefs) (recipe_id r))) c
        = map (\<lambda>r. score_recipe_for_user r prefs) c"
    using assms by (auto simp: recipe_scores_lookup)
  have pen: "(if unique_count_by_spec json_loads c > max_ingredients_per_week u
              then unique_count_by_spec json_loads c - max_ingredients_per_week u else 0)
             = max 0 (unique_count_by_spec json_loads c - max_ingredients_per_week u)"
    by (simp add: max_def)
  show ?thesis
    unfolding combo_combined_score_def avg_pref_score_def eq Let_def
      combo_ingredient_count_by_spec pen combined_by_spec_def float_mul_def
    by (simp add: mult.commute)
qed

lemma first_maximal_cong:
  assumes "\<And>c. c \<in> set cs \<Longrightarrow> f c = g c"
  shows "first_maximal f cs i = first_maximal g cs i"
  using assms by (auto simp: first_maximal_def)

lemma search_loop_trace_extends:
  "\<exists>rest. fst (search_loop json_loads u scores num_recipes cs (trace, st)) = trace @ rest"
proof (induction cs arbitrary: trace st)
  case Nil
  then show ?case by simp
next
  case (Cons c cs)
  show ?case
  proof (cases "evaluate_combo json_loads u scores num_recipes c st")
    case (Inl e)
    then show ?thesis by simp
  next
    case (Inr st')
    from Cons.IH [of "trace @ [Evaluated c]" st']
    obtain rest where
      "fst (search_loop json_loads u scores num_recipes cs (trace @ [Evaluated c], st'))
       = (trace @ [Evaluated c]) @ rest"
      by blast
    then have "fst (search_loop json_loads u scores num_recipes (c # cs) (trace, st))
               = trace @ (Evaluated c # rest)"
      using Inr by simp
    then show ?thesis by blast
  qed
qed

text \<open>
  C3. Whenever the pool holds fewer recipes than requested, the planner raises its
  "not enough recipes" error (a ValueError in the code) carrying the two numbers, and its
  trace of work is empty: no recipe was scored and no combination evaluated; no plan is
  returned (also when the user query finds nobody the trace is empty and the result an
  error). Whenever the request is not larger than the pool, the pool's recipes are scored
  first, so the trace is not empty unless the pool is.
\<close>

theorem insufficient_pool_error:
  "(int (length pool) < k \<longrightarrow>
      get_weekly_recommendations json_loads uid (Some u) user_prefs pool k
        = ([], Inl (NotEnoughRecipes k (int (length pool))))
      \<and> fst (get_weekly_recommendations json_loads uid found_user user_prefs pool k) = []
      \<and> isl (snd (get_weekly_recommendations json_loads uid found_user user_prefs pool k)))
   \<and> (k \<le> int (length pool) \<longrightarrow>
        take (length pool)
          (fst (get_weekly_recommendations json_loads uid (Some u) user_prefs pool k))
        = map Scored pool)"
proof (intro conjI impI)
  assume small: "int (length pool) < k"
  show "get_weekly_recommendations json_loads uid (Some u) user_prefs pool k
        = ([], Inl (NotEnoughRecipes k (int (length pool))))"
    using small by (simp add: get_weekly_recommendations_def)
  show "fst (get_weekly_recommendations json_loads uid found_user user_prefs pool k) = []"
    using small by (simp add: get_weekly_recommendations_def split: option.splits)
  show "isl (snd (get_weekly_recommendations json_loads uid found_user user_prefs pool k))"
    using small by (simp add: get_weekly_recommendations_def split: option.splits)
next
  assume enough: "k \<le> int (length pool)"
  define scores where "scores = snd (score_all pool user_prefs)"
  have sa: "score_all pool user_prefs = (map Scored pool, scores)"
    by (simp add: scores_def score_all_eq)
  define cands where "cands =
    (if length (combinations [0..<length pool] (nat k)) > 10000
     then take (min 50 (length pool)) (sorted_desc (\<lambda>r. the (scores (recipe_id r))) pool)
     else pool)"
  obtain rest where rest:
    "fst (search_loop json_loads u scores k (combinations cands (nat k))
            (map Scored pool, initial_state))
     = map Scored pool @ rest"
    using search_loop_trace_extends by blast
  obtain trace res where sl:
    "search_loop json_loads u scores k (combinations cands (nat k))
       (map Scored pool, initial_state) = (trace, res)"
    by (cases "search_loop json_loads u scores k (combinations cands (nat k))
                 (map Scored pool, initial_state)")
  have trace: "trace = map Scored pool @ rest"
    using rest sl by simp
  have "fst (get_weekly_recommendations json_loads uid (Some u) user_prefs pool k)
        = (if k < 0 then map Scored pool else trace)"
    using enough sl
    by (simp add: get_weekly_recommendations_def sa Let_def cands_def [symmetric]
        split: sum.splits option.splits prod.splits)
  then show "take (length pool)
          (fst (get_weekly_recommendations json_loads uid (Some u) user_prefs pool k))
        = map Scored pool"
    using trace by simp
qed

text \<open>
  The theorem at a pool of size 2: with 3 recipes requested, the error and an empty trace;
  with 2 requested, a trace that starts with the scoring of the two recipes.
\<close>

theorem insufficient_pool_error_witness:
  "get_weekly_recommendations example_loads 1 (Some example_user) example_user_prefs
     [toast, crepe] 3
   = ([], Inl (NotEnoughRecipes 3 2))
   \<and> take 2 (fst (get_weekly_recommendations example_loads 1 (Some example_user)
                    example_user_prefs [toast, crepe] 2))
     = [Scored toast, Scored crepe]"
proof
  show "get_weekly_recommendations example_loads 1 (Some example_user) example_user_prefs
     [toast, crepe] 3
   = ([], Inl (NotEnoughRecipes 3 2))"
    using insufficient_pool_error
      [where pool = "[toast, crepe]" and k = 3 and json_loads = example_loads and uid = 1
         and u = example_user and user_prefs = example_user_prefs]
    by simp
  show "take 2 (fst (get_weekly_recommendations example_loads 1 (Some example_user)
                    example_user_prefs [toast, crepe] 2))
     = [Scored toast, Scored crepe]"
    using insufficient_pool_error
      [where pool = "[toast, crepe]" and k = 2 and json_loads = example_loads and uid = 1
         and u = example_user and user_prefs = example_user_prefs]
    by (simp add: numeral_2_eq_2)
qed

lemma example_combinations:
  "combinations example_pool 3
   = [[curry_dish, toast, crepe], [curry_dish, toast, porridge],
      [curry_dish, crepe, porridge], [toast, crepe, porridge]]"
  by (simp add: example_pool_def numeral_3_eq_3)

lemma example_normalized:
  "normalize_ingredient_name ''rye'' = ''rye''"
  "normalize_ingredient_name ''figs'' = ''fig''"
  "\<not> is_pantry_staple ''rye''"
  "\<not> is_pantry_staple ''fig''"
  by code_simp+

lemma example_keys:
  "recipe_ingredient_keys example_loads curry_dish = {''rye'', ''fig''}"
  "recipe_ingredient_keys example_loads toast = {}"
  "recipe_ingredient_keys example_loads crepe = {}"
  "recipe_ingredient_keys example_loads porridge = {}"
  by (simp_all add: recipe_ingredient_keys_def curry_dish_def toast_def crepe_def porridge_def
      example_loads_def original_text_def dict_get_def example_normalized)

lemma example_scores:
  "score_recipe_for_user curry_dish example_user_prefs = 2"
  "score_recipe_for_user toast example_user_prefs = 1"
  "score_recipe_for_user crepe example_user_prefs = 1"
  "score_recipe_for_user porridge example_user_prefs = -1"
  by (simp_all add: score_recipe_for_user_def curry_dish_def toast_def crepe_def porridge_def
      example_user_prefs_def pref_lookup_def dict_get_def truthy_str_def truthy_int_def Let_def)

lemma example_combined:
  "combined_by_spec example_loads example_user_prefs 0 3 [curry_dish, toast, crepe]
   = 1501199875790165 / 4503599627370496"
  "combined_by_spec example_loads example_user_prefs 0 3 [curry_dish, toast, porridge]
   = - (3002399751580331 / 9007199254740992)"
  "combined_by_spec example_loads example_user_prefs 0 3 [curry_dish, crepe, porridge]
   = - (3002399751580331 / 9007199254740992)"
  "combined_by_spec example_loads example_user_prefs 0 3 [toast, crepe, porridge]
   = 6004799503160661 / 18014398509481984"
  by (simp_all add: combined_by_spec_def unique_count_by_spec_def example_keys example_scores
      float_eval)

lemma search_returns_first_maximal:
  assumes k1: "1 \<le> k" and kn: "k \<le> length pool"
    and ceiling: "length pool choose k \<le> 10000" and ids: "distinct (map recipe_id pool)"
  shows "\<exists>stats i.
           get_weekly_recommendations json_loads uid (Some u) user_prefs pool (int k)
             = (map Scored pool @ map Evaluated (combinations pool k),
                Inr (combinations pool k ! i, stats))
           \<and> first_maximal (combined_by_spec json_loads user_prefs (max_ingredients_per_week u) k)
               (combinations pool k) i
           \<and> (\<forall>c. subseq c pool \<and> length c = k \<longrightarrow>
                 combined_by_spec json_loads user_prefs (max_ingredients_per_week u) k c
                 \<le> combined_by_spec json_loads user_prefs (max_ingredients_per_week u) k
                      (combinations pool k ! i))"
proof -
  define scores where "scores = snd (score_all pool user_prefs)"
  have sa: "score_all pool user_prefs = (map Scored pool, scores)"
    by (simp add: scores_def score_all_eq)
  let ?cs = "combinations pool k"
  let ?f = "combo_combined_score json_loads u scores (int k)"
  let ?g = "combined_by_spec json_loads user_prefs (max_ingredients_per_week u) k"
  have nonempty: "?cs \<noteq> []"
  proof -
    have "0 < length pool choose k" using kn by (simp add: zero_less_binomial)
    then have "0 < length ?cs" by (simp add: length_combinations)
    then show ?thesis by auto
  qed
  have k0: "int k \<noteq> 0" using k1 by simp
  from search_loop_first_maximal [OF k0 nonempty, of json_loads u scores "map Scored pool"]
  obtain st i where st:
    "search_loop json_loads u scores (int k) ?cs (map Scored pool, initial_state)
     = (map Scored pool @ map Evaluated ?cs, Inr st)"
    "first_maximal ?f ?cs i" "best_combination st = Some (?cs ! i)" "best_stats st \<noteq> None"
    by (elim exE conjE)
  have same: "?f c = ?g c" if "c \<in> set ?cs" for c
  proof -
    have "subseq c pool" using that by (simp add: in_combinations_iff)
    then have "set c \<subseteq> set pool" by (rule subseq_set)
    with ids show ?thesis unfolding scores_def by (rule combined_score_by_spec)
  qed
  have fm: "first_maximal ?g ?cs i"
    using st(2) first_maximal_cong [of ?cs ?f ?g i] same by blast
  have total: "length (combinations [0..<length pool] k) = length pool choose k"
    by (simp add: length_combinations)
  have result: "get_weekly_recommendations json_loads uid (Some u) user_prefs pool (int k)
        = (map Scored pool @ map Evaluated ?cs,
           Inr (?cs ! i, detailed_stats json_loads u (?cs ! i) (the (best_stats st))))"
    using kn ceiling st(1) st(3)
    by (simp add: get_weekly_recommendations_def Let_def total sa)
  have best: "?g c \<le> ?g (?cs ! i)" if "subseq c pool \<and> length c = k" for c
  proof -
    have "c \<in> set ?cs" using that by (simp add: in_combinations_iff)
    then show ?thesis using fm by (simp add: first_maximal_def)
  qed
  show ?thesis
    using result fm best by blast
qed

lemma example_plan:
  "\<exists>stats.
      snd (get_weekly_recommendations example_loads 1 (Some example_user) example_user_prefs
             example_pool 3)
      = Inr ([toast, crepe, porridge], stats)"
proof -
  let ?g = "combined_by_spec example_loads example_user_prefs 0 3"
  let ?cs = "combinations example_pool 3"
  have ids: "distinct (map recipe_id example_pool)"
    by (simp add: example_pool_def curry_dish_def toast_def crepe_def porridge_def)
  have kn: "3 \<le> length example_pool"
    by (simp add: example_pool_def)
  have ceiling: "length example_pool choose 3 \<le> 10000"
    by (simp add: example_pool_def numeral_3_eq_3 binomial_Suc_Suc)
  have budget: "max_ingredients_per_week example_user = 0"
    by (simp add: example_user_def)
  have k: "int 3 = 3" by simp
  from search_returns_first_maximal
    [where u = example_user and k = 3 and pool = example_pool
       and json_loads = example_loads and uid = 1 and user_prefs = example_user_prefs,
     OF _ kn ceiling ids]
  obtain stats i where res:
      "snd (get_weekly_recommendations example_loads 1 (Some example_user) example_user_prefs
              example_pool 3)
       = Inr (?cs ! i, stats)"
    and fm: "first_maximal ?g ?cs i"
    unfolding budget k by auto
  note vals = example_combined
  have i4: "i < 4" and top: "?g [toast, crepe, porridge] \<le> ?g (?cs ! i)"
    using fm unfolding first_maximal_def example_combinations by simp_all
  have "i = 3"
  proof (rule ccontr)
    assume "i \<noteq> 3"
    then consider "i = 0" | "i = 1" | "i = 2" using i4 by linarith
    then show False
      using top vals unfolding example_combinations by cases simp_all
  qed
  then show ?thesis
    using res unfolding example_combinations by simp
qed

text \<open>
  C2, as amended. For a user, a pool of recipes with distinct ids, and \<open>1 \<le> k \<le> len(pool)\<close>
  with \<open>C(len(pool), k) \<le> 10000\<close>: the planner scores every recipe of the pool, evaluates
  every combination in the enumeration order of \<open>itertools.combinations\<close>, and returns a
  plan whose recipes are the first combination in that order whose combined score is
  maximal, where combined = (sum of the recipes' preference scores) / k
  - 0.5 * max(0, unique ingredient count - budget), computed in floats as the code does; no
  \<open>k\<close>-element selection from the pool scores more, and every combination enumerated
  earlier scores strictly less.
\<close>

theorem weekly_search_optimal:
  assumes k1: "1 \<le> k" and kn: "k \<le> length pool"
    and ceiling: "length pool choose k \<le> 10000" and ids: "distinct (map recipe_id pool)"
  shows "\<exists>stats i.
           get_weekly_recommendations json_loads uid (Some u) user_prefs pool (int k)
             = (map Scored pool @ map Evaluated (combinations pool k),
                Inr (combinations pool k ! i, stats))
           \<and> first_maximal (combined_by_spec json_loads user_prefs (max_ingredients_per_week u) k)
               (combinations pool k) i
           \<and> (\<forall>c. subseq c pool \<and> length c = k \<longrightarrow>
                 combined_by_spec json_loads user_prefs (max_ingredients_per_week u) k c
                 \<le> combined_by_spec json_loads user_prefs (max_ingredients_per_week u) k
                      (combinations pool k ! i))"
  using assms by (rule search_returns_first_maximal)

text \<open>
  The theorem at the pool of four recipes, three requested, budget 0. The four triples
  score 0.33333333333333326, -0.33333333333333337 (twice) and 0.3333333333333333 in
  floats, so the first maximal one is the last, at position 3: toast, crepe and porridge.
\<close>

theorem weekly_search_optimal_witness:
  "\<exists>stats i.
      get_weekly_recommendations example_loads 1 (Some example_user) example_user_prefs
        example_pool 3
      = (map Scored example_pool @ map Evaluated (combinations example_pool 3),
         Inr (combinations example_pool 3 ! i, stats))
      \<and> first_maximal (combined_by_spec example_loads example_user_prefs 0 3)
          (combinations example_pool 3) i
      \<and> i = 3"
proof -
  let ?g = "combined_by_spec example_loads example_user_prefs 0 3"
  let ?cs = "combinations example_pool 3"
  have ids: "distinct (map recipe_id example_pool)"
    by (simp add: example_pool_def curry_dish_def toast_def crepe_def porridge_def)
  have kn: "3 \<le> length example_pool"
    by (simp add: example_pool_def)
  have ceiling: "length example_pool choose 3 \<le> 10000"
    by (simp add: example_pool_def numeral_3_eq_3 binomial_Suc_Suc)
  have budget: "max_ingredients_per_week example_user = 0"
    by (simp add: example_user_def)
  have k: "int 3 = 3" by simp
  from weekly_search_optimal
    [where u = example_user and k = 3 and pool = example_pool
       and json_loads = example_loads and uid = 1 and user_prefs = example_user_prefs,
     OF _ kn ceiling ids]
  obtain stats i where res:
      "get_weekly_recommendations example_loads 1 (Some example_user) example_user_prefs
         example_pool 3
       = (map Scored example_pool @ map Evaluated ?cs, Inr (?cs ! i, stats))"
    and fm: "first_maximal ?g ?cs i"
    unfolding budget k by auto
  note vals = example_combined
  have i4: "i < 4" and top: "?g [toast, crepe, porridge] \<le> ?g (?cs ! i)"
    using fm unfolding first_maximal_def example_combinations by simp_all
  have "i = 3"
  proof (rule ccontr)
    assume "i \<noteq> 3"
    then consider "i = 0" | "i = 1" | "i = 2" using i4 by linarith
    then show False
      using top vals unfolding example_combinations by cases simp_all
  qed
  with res fm show ?thesis by blast
qed

text \<open>
  C2 as stated fails in two ways. At \<open>k = 0\<close>: the pool of four recipes has at least 0
  recipes and one combination of size 0, within the ceiling, and the planner raises
  ZeroDivisionError on the average over zero recipes instead of returning a combination.
  At \<open>k = 3\<close>, with the combined score read in exact arithmetic: the four triples score
  1/3, -1/3, -1/3 and 1/3, the first of the maximal ones is the first triple, and the
  planner returns the last, whose float score is the larger.
\<close>

theorem weekly_search_counterexample:
  "0 \<le> length example_pool
   \<and> length example_pool choose 0 \<le> 10000
   \<and> snd (get_weekly_recommendations example_loads 1 (Some example_user) example_user_prefs
            example_pool 0)
     = Inl ZeroDivisionError
   \<and> 3 \<le> length example_pool
   \<and> length example_pool choose 3 \<le> 10000
   \<and> map (combined_exact example_loads example_user_prefs
             (max_ingredients_per_week example_user) 3) (combinations example_pool 3)
     = [1 / 3, - 1 / 3, - 1 / 3, 1 / 3]
   \<and> map_sum id fst
       (snd (get_weekly_recommendations example_loads 1 (Some example_user) example_user_prefs
               example_pool 3))
     = Inr (combinations example_pool 3 ! 3)"
proof (intro conjI)
  show "0 \<le> length example_pool" by simp
  show "length example_pool choose 0 \<le> 10000" by simp
  show "snd (get_weekly_recommendations example_loads 1 (Some example_user) example_user_prefs
            example_pool 0)
     = Inl ZeroDivisionError"
    by (simp add: get_weekly_recommendations_def score_all_eq evaluate_combo_def
        split: prod.splits)
  show "3 \<le> length example_pool" by (simp add: example_pool_def)
  show "length example_pool choose 3 \<le> 10000"
    by (simp add: example_pool_def numeral_3_eq_3 binomial_Suc_Suc)
  show "map (combined_exact example_loads example_user_prefs
             (max_ingredients_per_week example_user) 3) (combinations example_pool 3)
     = [1 / 3, - 1 / 3, - 1 / 3, 1 / 3]"
    unfolding example_combinations
    by (simp add: combined_exact_def unique_count_by_spec_def example_keys example_scores
        example_user_def)
  show "map_sum id fst
       (snd (get_weekly_recommendations example_loads 1 (Some example_user) example_user_prefs
               example_pool 3))
     = Inr (combinations example_pool 3 ! 3)"
    using example_plan unfolding example_combinations by auto
qed

end

